theory Spec2Isabelle
  imports Main "HOL-Library.Word" "HOL-Library.Product_Lexorder"
begin

section \<open>Values of the Go program\<close>

text \<open>
  Go's \<^verbatim>\<open>int64\<close> is a 64-bit word read as two's complement (\<open>sint\<close>); its
  subtraction wraps. Row and user identifiers are only compared, never computed with,
  and are kept as \<open>int\<close>.
\<close>

type_synonym int64 = "64 word"

text \<open>
  \<^verbatim>\<open>time.Time\<close>: the civil fields that \<^verbatim>\<open>Year()\<close>, \<^verbatim>\<open>Month()\<close>, ... \<^verbatim>\<open>Second()\<close>
  read, the nanosecond within the second, and the location, kept as its offset from UTC
  in seconds.
\<close>

record Time =
  Year :: int
  Month :: nat
  Day :: nat
  Hour :: nat
  Minute :: nat
  Second :: nat
  Nanosecond :: nat
  Location :: int

text \<open>
  \<^verbatim>\<open>time.Date(year, month, day, hour, min, sec, nsec, loc)\<close>. The program calls it only
  with the year, month and day of an existing time and with the clock readings
  \<^verbatim>\<open>0, 0, 0, 0\<close> or \<^verbatim>\<open>23, 59, 59, 999999999\<close>, where Go does no normalisation.
\<close>

definition time_Date :: "int \<Rightarrow> nat \<Rightarrow> nat \<Rightarrow> nat \<Rightarrow> nat \<Rightarrow> nat \<Rightarrow> nat \<Rightarrow> int \<Rightarrow> Time" where
  "time_Date y m d h mi s ns loc =
     \<lparr>Year = y, Month = m, Day = d, Hour = h, Minute = mi, Second = s,
      Nanosecond = ns, Location = loc\<rparr>"

text \<open>The instant of a time, in nanoseconds since the Unix epoch (proleptic Gregorian).\<close>

definition days_from_civil :: "int \<Rightarrow> nat \<Rightarrow> nat \<Rightarrow> int" where
  "days_from_civil y m d =
     (let y' = (if m \<le> 2 then y - 1 else y);
          era = y' div 400;
          yoe = y' - era * 400;
          mp = (if m > 2 then int m - 3 else int m + 9);
          doy = (153 * mp + 2) div 5 + int d - 1;
          doe = yoe * 365 + yoe div 4 - yoe div 100 + doy
      in era * 146097 + doe - 719468)"

definition UnixNano :: "Time \<Rightarrow> int" where
  "UnixNano t =
     (((days_from_civil (Year t) (Month t) (Day t) * 24 + int (Hour t)) * 60
         + int (Minute t)) * 60 + int (Second t) - Location t) * 1000000000
       + int (Nanosecond t)"

subsection \<open>Errors\<close>

text \<open>
  The four sentinel errors of the service, the driver's \<^verbatim>\<open>pgx.ErrNoRows\<close>, an error
  raised by the database, driver or operating system, \<^verbatim>\<open>fmt.Errorf\<close> without \<^verbatim>\<open>%w\<close>
  (\<open>Errorf\<close>) and with \<^verbatim>\<open>%w\<close> (\<open>Wrapf\<close>: the message and the wrapped error).
\<close>

datatype error =
    ErrTransactionNotFound
  | ErrForbidden
  | ErrInvalidFileFormat
  | ErrFileSizeExceeded
  | ErrNoRows
  | External string
  | Errorf string
  | Wrapf string error

text \<open>\<^verbatim>\<open>errors.Is(err, target)\<close> for a sentinel target: walks the chain of wrapped errors.\<close>

fun errors_Is :: "error \<Rightarrow> error \<Rightarrow> bool" where
  "errors_Is (Wrapf msg e) target = (Wrapf msg e = target \<or> errors_Is e target)"
| "errors_Is e target = (e = target)"

subsection \<open>Decimal rendering\<close>

definition digit_char :: "nat \<Rightarrow> char" where
  "digit_char d = ''0123456789'' ! (d mod 10)"

fun decimal :: "nat \<Rightarrow> string" where
  "decimal n = (if n < 10 then [digit_char n] else decimal (n div 10) @ [digit_char (n mod 10)])"

text \<open>\<^verbatim>\<open>strconv.Itoa\<close>, \<^verbatim>\<open>strconv.FormatInt(_, 10)\<close> and the verb \<^verbatim>\<open>%d\<close>.\<close>

definition Itoa :: "int \<Rightarrow> string" where
  "Itoa i = (if i < 0 then ''-'' @ decimal (nat (- i)) else decimal (nat i))"

definition FormatInt :: "int64 \<Rightarrow> string" where
  "FormatInt x = Itoa (sint x)"

text \<open>\<^verbatim>\<open>strings.Join(elems, sep)\<close>.\<close>

fun strings_Join :: "string list \<Rightarrow> string \<Rightarrow> string" where
  "strings_Join [] sep = ''''"
| "strings_Join [x] sep = x"
| "strings_Join (x # y # ys) sep = x @ sep @ strings_Join (y # ys) sep"

section \<open>The model package\<close>

definition TransactionTypeIncome :: string where
  "TransactionTypeIncome = ''income''"

definition TransactionTypeExpense :: string where
  "TransactionTypeExpense = ''expense''"

definition RoleUser :: string where
  "RoleUser = ''user''"

definition RoleAdmin :: string where
  "RoleAdmin = ''admin''"

text \<open>\<^verbatim>\<open>model.Transaction\<close>; a nil pointer field is \<open>None\<close>.\<close>

record Transaction =
  ID :: int
  UserID :: int
  Amount :: int64
  Type :: string
  Category :: string
  Description :: "string option"
  TransactionDate :: Time
  ReceiptPath :: "string option"
  CreatedAt :: Time
  UpdatedAt :: Time

text \<open>\<^verbatim>\<open>model.UpdateTransactionRequest\<close>.\<close>

record UpdateTransactionRequest =
  Amount_r :: "int64 option"
  Type_r :: "string option"
  Category_r :: "string option"
  Description_r :: "string option"
  TransactionDate_r :: "Time option"

text \<open>\<^verbatim>\<open>model.AdminTransactionFilters\<close>.\<close>

record AdminTransactionFilters =
  UserID_a :: "int option"
  StartDate_a :: "Time option"
  EndDate_a :: "Time option"
  Category_a :: "string option"
  Type_a :: "string option"

text \<open>\<^verbatim>\<open>model.UserTransactionFilters\<close>.\<close>

record UserTransactionFilters =
  Type_u :: "string option"
  Category_u :: "string option"
  StartDate_u :: "Time option"
  EndDate_u :: "Time option"

text \<open>\<^verbatim>\<open>model.UserStat\<close> and \<^verbatim>\<open>model.AggregatedStats\<close>; a Go map is a partial function.\<close>

record UserStat =
  UserID_s :: int
  UserPhone :: string
  TotalSpent :: int64
  TotalIncome_s :: int64
  TransactionCount :: int64

record AggregatedStats =
  TotalIncome :: int64
  TotalExpenses :: int64
  Balance :: int64
  ByCategoryIncome :: "string \<rightharpoonup> int64"
  ByCategoryExpense :: "string \<rightharpoonup> int64"
  ByUserSpending :: "int \<rightharpoonup> UserStat"

text \<open>\<^verbatim>\<open>model.User\<close>, as far as the transaction queries read it.\<close>

record User =
  ID_u :: int
  Phone :: string
  Role :: string

section \<open>The database\<close>

text \<open>
  The PostgreSQL store behind \<^verbatim>\<open>pgxpool.Pool\<close>: the rows of the two tables of
  \<^verbatim>\<open>AutoMigrate\<close>. A row of \<^verbatim>\<open>transactions\<close> has the columns of \<open>Transaction\<close>.
\<close>

record db =
  transactions :: "Transaction list"
  users :: "User list"

text \<open>A bound parameter, and a condition \<^verbatim>\<open>column op $n\<close> of a WHERE clause.\<close>

datatype arg = IntArg int | StrArg string | TimeArg Time

datatype cmp_op = OpEq | OpGe | OpLe

datatype cond = Cond string cmp_op nat

fun param :: "cond \<Rightarrow> nat" where
  "param (Cond col op n) = n"

fun op_sql :: "cmp_op \<Rightarrow> string" where
  "op_sql OpEq = ''=''"
| "op_sql OpGe = ''>=''"
| "op_sql OpLe = ''<=''"

text \<open>The text of a condition: \<^verbatim>\<open>fmt.Sprintf("t.user_id = $%d", argCount)\<close> and its like.\<close>

fun cond_sql :: "cond \<Rightarrow> string" where
  "cond_sql (Cond col op n) = col @ '' '' @ op_sql op @ '' $'' @ Itoa (int n)"

text \<open>
  A statement as the program sends it: its text, and the conditions of its WHERE clause
  as the database reads them from that text.
\<close>

record statement =
  sql :: string
  conds :: "cond list"

datatype sqltype = TInt | TText | TTimestamp

definition column_type :: "string \<Rightarrow> sqltype option" where
  "column_type c =
     (if c = ''t.user_id'' \<or> c = ''user_id'' then Some TInt
      else if c = ''t.type'' \<or> c = ''type'' \<or> c = ''t.category'' \<or> c = ''category'' then Some TText
      else if c = ''t.transaction_date'' \<or> c = ''transaction_date'' then Some TTimestamp
      else None)"

definition column_value :: "string \<Rightarrow> Transaction \<Rightarrow> arg" where
  "column_value c t =
     (if c = ''t.user_id'' \<or> c = ''user_id'' then IntArg (UserID t)
      else if c = ''t.type'' \<or> c = ''type'' then StrArg (Type t)
      else if c = ''t.category'' \<or> c = ''category'' then StrArg (Category t)
      else TimeArg (TransactionDate t))"

fun arg_type :: "arg \<Rightarrow> sqltype" where
  "arg_type (IntArg i) = TInt"
| "arg_type (StrArg s) = TText"
| "arg_type (TimeArg t) = TTimestamp"

text \<open>
  A statement is accepted when every condition names a column and a parameter of the
  column's type (the program orders only numbers and timestamps), and the parameters
  it refers to are exactly \<^verbatim>\<open>$1 .. $n\<close> for the \<open>n\<close> arguments bound.
\<close>

fun cond_ok :: "arg list \<Rightarrow> cond \<Rightarrow> bool" where
  "cond_ok args (Cond col op n) =
     (1 \<le> n \<and> n \<le> length args \<and> column_type col = Some (arg_type (args ! (n - 1)))
      \<and> (op \<noteq> OpEq \<longrightarrow> column_type col \<noteq> Some TText))"

definition statement_ok :: "cond list \<Rightarrow> arg list \<Rightarrow> bool" where
  "statement_ok cs args =
     (list_all (cond_ok args) cs \<and> list_all (\<lambda>i. i \<in> set (map param cs)) [1..<Suc (length args)])"

fun compare_args :: "cmp_op \<Rightarrow> arg \<Rightarrow> arg \<Rightarrow> bool" where
  "compare_args OpEq (TimeArg x) (TimeArg y) = (UnixNano x = UnixNano y)"
| "compare_args OpEq a b = (a = b)"
| "compare_args OpGe (IntArg x) (IntArg y) = (x \<ge> y)"
| "compare_args OpGe (TimeArg x) (TimeArg y) = (UnixNano x \<ge> UnixNano y)"
| "compare_args OpGe a b = False"
| "compare_args OpLe (IntArg x) (IntArg y) = (x \<le> y)"
| "compare_args OpLe (TimeArg x) (TimeArg y) = (UnixNano x \<le> UnixNano y)"
| "compare_args OpLe a b = False"

fun holds :: "arg list \<Rightarrow> Transaction \<Rightarrow> cond \<Rightarrow> bool" where
  "holds args t (Cond col op n) = compare_args op (column_value col t) (args ! (n - 1))"

text \<open>The WHERE clause: the conjunction of its conditions.\<close>

definition matching :: "cond list \<Rightarrow> arg list \<Rightarrow> Transaction \<Rightarrow> bool" where
  "matching cs args t = list_all (holds args t) cs"

definition bad_statement :: error where
  "bad_statement = External ''the database refused the statement''"

text \<open>
  \<^verbatim>\<open>SELECT ... FROM transactions [t] [WHERE ...] ORDER BY transaction_date DESC,
  created_at DESC\<close>.
\<close>

definition query_transactions :: "db \<Rightarrow> statement \<Rightarrow> arg list \<Rightarrow> error + Transaction list" where
  "query_transactions d st args =
     (if \<not> statement_ok (conds st) args then Inl bad_statement
      else Inr (sort_key (\<lambda>t. (- UnixNano (TransactionDate t), - UnixNano (CreatedAt t)))
                  (filter (matching (conds st) args) (transactions d))))"

text \<open>\<^verbatim>\<open>FROM transactions t JOIN users u ON t.user_id = u.id [WHERE ...]\<close>.\<close>

definition joined :: "db \<Rightarrow> (Transaction \<times> User) list" where
  "joined d =
     concat (map (\<lambda>t. map (\<lambda>u. (t, u)) (filter (\<lambda>u. UserID t = ID_u u) (users d)))
               (transactions d))"

definition selected :: "db \<Rightarrow> cond list \<Rightarrow> arg list \<Rightarrow> (Transaction \<times> User) list" where
  "selected d cs args = filter (\<lambda>r. matching cs args (fst r)) (joined d)"

text \<open>\<^verbatim>\<open>SUM(CASE WHEN t.type = 'income' THEN t.amount ELSE 0 END)\<close> and plain \<^verbatim>\<open>SUM(t.amount)\<close>,
  each inside \<^verbatim>\<open>COALESCE(_, 0)\<close>: PostgreSQL sums \<^verbatim>\<open>BIGINT\<close> exactly, as \<^verbatim>\<open>NUMERIC\<close>.\<close>

definition sum_of_type :: "string \<Rightarrow> (Transaction \<times> User) list \<Rightarrow> int" where
  "sum_of_type ty rows = sum_list (map (\<lambda>r. if Type (fst r) = ty then sint (Amount (fst r)) else 0) rows)"

definition sum_amount :: "(Transaction \<times> User) list \<Rightarrow> int" where
  "sum_amount rows = sum_list (map (\<lambda>r. sint (Amount (fst r))) rows)"

text \<open>The totals statement: one row, also over no rows.\<close>

definition query_totals :: "db \<Rightarrow> statement \<Rightarrow> arg list \<Rightarrow> error + (int \<times> int)" where
  "query_totals d st args =
     (if \<not> statement_ok (conds st) args then Inl bad_statement
      else let rows = selected d (conds st) args
           in Inr (sum_of_type ''income'' rows, sum_of_type ''expense'' rows))"

text \<open>\<^verbatim>\<open>SELECT t.category, COALESCE(SUM(t.amount), 0) ... GROUP BY t.category\<close>.\<close>

definition query_by_category :: "db \<Rightarrow> statement \<Rightarrow> arg list \<Rightarrow> error + (string \<times> int) list" where
  "query_by_category d st args =
     (if \<not> statement_ok (conds st) args then Inl bad_statement
      else let rows = selected d (conds st) args
           in Inr (map (\<lambda>c. (c, sum_amount (filter (\<lambda>r. Category (fst r) = c) rows)))
                     (remdups (map (\<lambda>r. Category (fst r)) rows))))"

text \<open>\<^verbatim>\<open>SELECT t.user_id, u.phone, [spent], [income], COUNT(t.id) ... GROUP BY t.user_id, u.phone\<close>.\<close>

definition user_key :: "Transaction \<times> User \<Rightarrow> int \<times> string" where
  "user_key r = (UserID (fst r), Phone (snd r))"

definition query_by_user ::
  "db \<Rightarrow> statement \<Rightarrow> arg list \<Rightarrow> error + (int \<times> string \<times> int \<times> int \<times> int) list" where
  "query_by_user d st args =
     (if \<not> statement_ok (conds st) args then Inl bad_statement
      else let rows = selected d (conds st) args
           in Inr (map (\<lambda>k. let g = filter (\<lambda>r. user_key r = k) rows
                             in (fst k, snd k, sum_of_type ''expense'' g, sum_of_type ''income'' g,
                                 int (length g)))
                     (remdups (map user_key rows))))"

text \<open>Scanning a \<^verbatim>\<open>NUMERIC\<close> or \<^verbatim>\<open>BIGINT\<close> into an \<^verbatim>\<open>int64\<close>: refused when it does not fit.\<close>

definition scan_int64 :: "int \<Rightarrow> error + int64" where
  "scan_int64 v =
     (if - (2 ^ 63) \<le> v \<and> v < 2 ^ 63 then Inr (word_of_int v)
      else Inl (External ''value out of range for int64''))"

section \<open>The repository: building the filter\<close>

text \<open>
  The three variables every query builder of the repository threads through its
  \<^verbatim>\<open>if\<close> blocks: \<^verbatim>\<open>conditions\<close>, \<^verbatim>\<open>args\<close> and \<^verbatim>\<open>argCount\<close>. One block appends the
  condition with the current \<^verbatim>\<open>argCount\<close>, appends the value and increments the count.
\<close>

type_synonym builder = "cond list \<times> arg list \<times> nat"

definition add_condition :: "string \<Rightarrow> cmp_op \<Rightarrow> arg \<Rightarrow> builder \<Rightarrow> builder" where
  "add_condition col op v b =
     (case b of (conditions, args, argCount) \<Rightarrow>
        (conditions @ [Cond col op argCount], args @ [v], argCount + 1))"

text \<open>The same block with the increment commented out (the last block of \<^verbatim>\<open>FindAll\<close>
  and of \<^verbatim>\<open>FindByUser\<close>).\<close>

definition add_last_condition :: "string \<Rightarrow> cmp_op \<Rightarrow> arg \<Rightarrow> builder \<Rightarrow> builder" where
  "add_last_condition col op v b =
     (case b of (conditions, args, argCount) \<Rightarrow>
        (conditions @ [Cond col op argCount], args @ [v], argCount))"

text \<open>\<^verbatim>\<open>GetAggregatedStats\<close>, lines 307 to 337.\<close>

definition stats_conditions :: "AdminTransactionFilters \<Rightarrow> builder" where
  "stats_conditions filters =
     (let b0 = ([], [], 1);
          b1 = (case UserID_a filters of None \<Rightarrow> b0
                | Some uid \<Rightarrow> add_condition ''t.user_id'' OpEq (IntArg uid) b0);
          b2 = (case Type_a filters of None \<Rightarrow> b1
                | Some ty \<Rightarrow> if ty \<noteq> [] then add_condition ''t.type'' OpEq (StrArg ty) b1 else b1);
          b3 = (case Category_a filters of None \<Rightarrow> b2
                | Some c \<Rightarrow> if c \<noteq> [] then add_condition ''t.category'' OpEq (StrArg c) b2 else b2);
          b4 = (case StartDate_a filters of None \<Rightarrow> b3
                | Some sd \<Rightarrow> add_condition ''t.transaction_date'' OpGe (TimeArg sd) b3);
          b5 = (case EndDate_a filters of None \<Rightarrow> b4
                | Some ed \<Rightarrow> add_condition ''t.transaction_date'' OpLe (TimeArg ed) b4)
      in b5)"

text \<open>\<^verbatim>\<open>FindAll\<close>, lines 237 to 265.\<close>

definition FindAll_conditions :: "AdminTransactionFilters \<Rightarrow> builder" where
  "FindAll_conditions filters =
     (let b0 = ([], [], 1);
          b1 = (case UserID_a filters of None \<Rightarrow> b0
                | Some uid \<Rightarrow> add_condition ''t.user_id'' OpEq (IntArg uid) b0);
          b2 = (case Type_a filters of None \<Rightarrow> b1
                | Some ty \<Rightarrow> if ty \<noteq> [] then add_condition ''t.type'' OpEq (StrArg ty) b1 else b1);
          b3 = (case Category_a filters of None \<Rightarrow> b2
                | Some c \<Rightarrow> if c \<noteq> [] then add_condition ''t.category'' OpEq (StrArg c) b2 else b2);
          b4 = (case StartDate_a filters of None \<Rightarrow> b3
                | Some sd \<Rightarrow> add_condition ''t.transaction_date'' OpGe (TimeArg sd) b3);
          b5 = (case EndDate_a filters of None \<Rightarrow> b4
                | Some ed \<Rightarrow> add_last_condition ''t.transaction_date'' OpLe (TimeArg ed) b4)
      in b5)"

text \<open>\<^verbatim>\<open>FindByUser\<close>, lines 136 to 161: the text starts with \<^verbatim>\<open>WHERE user_id = $1\<close>.\<close>

definition FindByUser_conditions :: "int \<Rightarrow> UserTransactionFilters \<Rightarrow> builder" where
  "FindByUser_conditions userID filters =
     (let b0 = ([Cond ''user_id'' OpEq 1], [IntArg userID], 2);
          b1 = (case Type_u filters of None \<Rightarrow> b0
                | Some ty \<Rightarrow> if ty \<noteq> [] then add_condition ''type'' OpEq (StrArg ty) b0 else b0);
          b2 = (case Category_u filters of None \<Rightarrow> b1
                | Some c \<Rightarrow> if c \<noteq> [] then add_condition ''category'' OpEq (StrArg c) b1 else b1);
          b3 = (case StartDate_u filters of None \<Rightarrow> b2
                | Some sd \<Rightarrow> add_condition ''transaction_date'' OpGe (TimeArg sd) b2);
          b4 = (case EndDate_u filters of None \<Rightarrow> b3
                | Some ed \<Rightarrow> add_last_condition ''transaction_date'' OpLe (TimeArg ed) b3)
      in b4)"

text \<open>\<^verbatim>\<open>" WHERE " + strings.Join(conditions, " AND ")\<close> when there is a condition.\<close>

definition whereClause_of :: "cond list \<Rightarrow> string" where
  "whereClause_of conditions =
     (if length conditions > 0 then '' WHERE '' @ strings_Join (map cond_sql conditions) '' AND ''
      else [])"

section \<open>The repository: listings\<close>

definition FindAll_query :: "AdminTransactionFilters \<Rightarrow> statement \<times> arg list" where
  "FindAll_query filters =
     (case FindAll_conditions filters of (conditions, args, argCount) \<Rightarrow>
        (let queryBuilder = ''SELECT t.id, t.user_id, t.amount, t.type, t.category, t.description, t.transaction_date, t.receipt_path, t.created_at, t.updated_at \<newline>                               FROM transactions t'';
             queryBuilder = (if length conditions > 0
                             then queryBuilder @ '' WHERE '' @ strings_Join (map cond_sql conditions) '' AND ''
                             else queryBuilder);
             queryBuilder = queryBuilder @ '' ORDER BY t.transaction_date DESC, t.created_at DESC''
         in (\<lparr>sql = queryBuilder, conds = conditions\<rparr>, args)))"

definition FindAll :: "db \<Rightarrow> AdminTransactionFilters \<Rightarrow> error + Transaction list" where
  "FindAll d filters =
     (case FindAll_query filters of (q, args) \<Rightarrow>
        (case query_transactions d q args of
           Inl err \<Rightarrow> Inl (Wrapf ''failed to query all transactions'' err)
         | Inr rows \<Rightarrow> Inr rows))"

definition FindByUser_query :: "int \<Rightarrow> UserTransactionFilters \<Rightarrow> statement \<times> arg list" where
  "FindByUser_query userID filters =
     (case FindByUser_conditions userID filters of (conditions, args, argCount) \<Rightarrow>
        (let queryBuilder = ''SELECT id, user_id, amount, type, category, description, transaction_date, receipt_path, created_at, updated_at \<newline>                               FROM transactions WHERE '' @ strings_Join (map cond_sql conditions) '' AND '';
             queryBuilder = queryBuilder @ '' ORDER BY transaction_date DESC, created_at DESC''
         in (\<lparr>sql = queryBuilder, conds = conditions\<rparr>, args)))"

definition FindByUser :: "db \<Rightarrow> int \<Rightarrow> UserTransactionFilters \<Rightarrow> error + Transaction list" where
  "FindByUser d userID filters =
     (case FindByUser_query userID filters of (q, args) \<Rightarrow>
        (case query_transactions d q args of
           Inl err \<Rightarrow> Inl (Wrapf ''failed to query transactions by user'' err)
         | Inr rows \<Rightarrow> Inr rows))"

text \<open>\<^verbatim>\<open>FindByID\<close>: the first row with the id, or nil with no error when there is none.\<close>

definition FindByID :: "db \<Rightarrow> int \<Rightarrow> error + Transaction option" where
  "FindByID d tid =
     (case filter (\<lambda>t. ID t = tid) (transactions d) of
        [] \<Rightarrow> Inr None
      | t # ts \<Rightarrow> Inr (Some t))"

section \<open>The repository: aggregated statistics\<close>

definition baseQuery :: string where
  "baseQuery = ''FROM transactions t JOIN users u ON t.user_id = u.id''"

text \<open>The totals statement (lines 345 to 349) with the arguments it is run with.\<close>

definition sumQuery :: "AdminTransactionFilters \<Rightarrow> statement \<times> arg list" where
  "sumQuery filters =
     (case stats_conditions filters of (conditions, args, argCount) \<Rightarrow>
        (\<lparr>sql = ''\<newline>        SELECT \<newline>            COALESCE(SUM(CASE WHEN t.type = 'income' THEN t.amount ELSE 0 END), 0) as total_income,\<newline>            COALESCE(SUM(CASE WHEN t.type = 'expense' THEN t.amount ELSE 0 END), 0) as total_expenses\<newline>        ''
                 @ baseQuery @ '' '' @ whereClause_of conditions,
          conds = conditions\<rparr>, args))"

text \<open>
  The statement of a category section (lines 358 to 374 for income, 395 to 410 for
  expense; the two differ in the constant \<open>ty\<close> only): when the filter has no type, the
  condition on the type is added to the copy of the WHERE clause and \<open>ty\<close> to the copy of
  the arguments.
\<close>

definition categoryQuery :: "string \<Rightarrow> AdminTransactionFilters \<Rightarrow> statement \<times> arg list" where
  "categoryQuery ty filters =
     (case stats_conditions filters of (conditions, args, argCount) \<Rightarrow>
        (let whereClause = whereClause_of conditions;
             categoryArgs = args;
             categoryWhereClause = whereClause;
             categoryConds = conditions;
             categoryArgCount = argCount;
             (categoryWhereClause, categoryConds, categoryArgs) =
               (if Type_a filters = None then
                  ((if categoryWhereClause = [] then '' WHERE t.type = $'' @ Itoa (int categoryArgCount)
                    else categoryWhereClause @ '' AND t.type = $'' @ Itoa (int categoryArgCount)),
                   categoryConds @ [Cond ''t.type'' OpEq categoryArgCount],
                   categoryArgs @ [StrArg ty])
                else (categoryWhereClause, categoryConds, categoryArgs))
         in (\<lparr>sql = ''SELECT t.category, COALESCE(SUM(t.amount), 0) '' @ baseQuery @ '' ''
                     @ categoryWhereClause @ '' GROUP BY t.category'',
              conds = categoryConds\<rparr>, categoryArgs)))"

text \<open>The per-user statement (lines 432 to 439).\<close>

definition userSpendingQuery :: "AdminTransactionFilters \<Rightarrow> statement \<times> arg list" where
  "userSpendingQuery filters =
     (case stats_conditions filters of (conditions, args, argCount) \<Rightarrow>
        (\<lparr>sql = ''\<newline>        SELECT \<newline>            t.user_id, \<newline>            u.phone,\<newline>            COALESCE(SUM(CASE WHEN t.type = 'expense' THEN t.amount ELSE 0 END), 0) as total_spent,\<newline>            COALESCE(SUM(CASE WHEN t.type = 'income' THEN t.amount ELSE 0 END), 0) as total_income,\<newline>            COUNT(t.id) as transaction_count\<newline>        ''
                 @ baseQuery @ '' '' @ whereClause_of conditions @ '' GROUP BY t.user_id, u.phone'',
          conds = conditions\<rparr>, args))"

text \<open>
  Lines 351 to 355: the totals are scanned into the two fields, an error other than
  \<^verbatim>\<open>pgx.ErrNoRows\<close> ends the call, and the balance is computed from the two fields.
\<close>

definition totals_section :: "db \<Rightarrow> AdminTransactionFilters \<Rightarrow> AggregatedStats \<Rightarrow> error + AggregatedStats" where
  "totals_section d filters stats =
     (case sumQuery filters of (q, args) \<Rightarrow>
        (let (err, stats) =
               (case query_totals d q args of
                  Inl e \<Rightarrow> (Some e, stats)
                | Inr (ti, te) \<Rightarrow>
                    (case scan_int64 ti of
                       Inl e \<Rightarrow> (Some e, stats)
                     | Inr x \<Rightarrow>
                         (case scan_int64 te of
                            Inl e \<Rightarrow> (Some e, stats\<lparr>TotalIncome := x\<rparr>)
                          | Inr y \<Rightarrow> (None, stats\<lparr>TotalIncome := x, TotalExpenses := y\<rparr>))))
         in (case err of
               Some e \<Rightarrow>
                 if \<not> errors_Is e ErrNoRows
                 then Inl (Wrapf ''failed to get total income/expenses'' e)
                 else Inr (stats\<lparr>Balance := TotalIncome stats - TotalExpenses stats\<rparr>)
             | None \<Rightarrow> Inr (stats\<lparr>Balance := TotalIncome stats - TotalExpenses stats\<rparr>))))"

text \<open>The loop over the rows of a category statement: \<^verbatim>\<open>stats.ByCategoryIncome[category] = sum\<close>
  (the variable \<^verbatim>\<open>sum\<close> is \<open>csum\<close> here).\<close>

fun scan_category_rows ::
  "string \<Rightarrow> (string \<times> int) list \<Rightarrow> (string \<rightharpoonup> int64) \<Rightarrow> error + (string \<rightharpoonup> int64)" where
  "scan_category_rows msg [] m = Inr m"
| "scan_category_rows msg ((category, csum) # rows) m =
     (case scan_int64 csum of
        Inl e \<Rightarrow> Inl (Wrapf msg e)
      | Inr v \<Rightarrow> scan_category_rows msg rows (m(category \<mapsto> v)))"

definition category_section ::
  "db \<Rightarrow> string \<Rightarrow> string \<Rightarrow> string \<Rightarrow> AdminTransactionFilters \<Rightarrow> (string \<rightharpoonup> int64)
     \<Rightarrow> error + (string \<rightharpoonup> int64)" where
  "category_section d ty msg_query msg_scan filters m =
     (if Type_a filters = None \<or> Type_a filters = Some ty then
        (case categoryQuery ty filters of (q, args) \<Rightarrow>
           (case query_by_category d q args of
              Inl err \<Rightarrow> Inl (Wrapf msg_query err)
            | Inr rows \<Rightarrow> scan_category_rows msg_scan rows m))
      else Inr m)"

text \<open>The loop over the rows of the per-user statement: \<^verbatim>\<open>stats.ByUserSpending[us.UserID] = us\<close>.\<close>

fun scan_user_rows ::
  "(int \<times> string \<times> int \<times> int \<times> int) list \<Rightarrow> (int \<rightharpoonup> UserStat) \<Rightarrow> error + (int \<rightharpoonup> UserStat)" where
  "scan_user_rows [] m = Inr m"
| "scan_user_rows ((uid, phone, spent, income, cnt) # rows) m =
     (case scan_int64 spent of
        Inl e \<Rightarrow> Inl (Wrapf ''failed to scan user stats'' e)
      | Inr s \<Rightarrow>
          (case scan_int64 income of
             Inl e \<Rightarrow> Inl (Wrapf ''failed to scan user stats'' e)
           | Inr i \<Rightarrow>
               (case scan_int64 cnt of
                  Inl e \<Rightarrow> Inl (Wrapf ''failed to scan user stats'' e)
                | Inr c \<Rightarrow>
                    scan_user_rows rows
                      (m(uid \<mapsto> \<lparr>UserID_s = uid, UserPhone = phone, TotalSpent = s,
                                 TotalIncome_s = i, TransactionCount = c\<rparr>)))))"

definition user_section ::
  "db \<Rightarrow> AdminTransactionFilters \<Rightarrow> (int \<rightharpoonup> UserStat) \<Rightarrow> error + (int \<rightharpoonup> UserStat)" where
  "user_section d filters m =
     (case userSpendingQuery filters of (q, args) \<Rightarrow>
        (case query_by_user d q args of
           Inl err \<Rightarrow> Inl (Wrapf ''failed to get stats by user'' err)
         | Inr rows \<Rightarrow> scan_user_rows rows m))"

text \<open>\<^verbatim>\<open>GetAggregatedStats\<close>: the four sections in the order of the source.\<close>

definition GetAggregatedStats :: "db \<Rightarrow> AdminTransactionFilters \<Rightarrow> error + AggregatedStats" where
  "GetAggregatedStats d filters =
     (let stats = \<lparr>TotalIncome = 0, TotalExpenses = 0, Balance = 0,
                   ByCategoryIncome = Map.empty, ByCategoryExpense = Map.empty,
                   ByUserSpending = Map.empty\<rparr>
      in case totals_section d filters stats of
           Inl e \<Rightarrow> Inl e
         | Inr stats \<Rightarrow>
             (case category_section d TransactionTypeIncome ''failed to get income by category''
                     ''failed to scan income by category'' filters (ByCategoryIncome stats) of
                Inl e \<Rightarrow> Inl e
              | Inr byIncome \<Rightarrow>
                  (case category_section d TransactionTypeExpense ''failed to get expense by category''
                          ''failed to scan expense by category'' filters (ByCategoryExpense stats) of
                     Inl e \<Rightarrow> Inl e
                   | Inr byExpense \<Rightarrow>
                       (case user_section d filters (ByUserSpending stats) of
                          Inl e \<Rightarrow> Inl e
                        | Inr byUser \<Rightarrow>
                            Inr (stats\<lparr>ByCategoryIncome := byIncome,
                                       ByCategoryExpense := byExpense,
                                       ByUserSpending := byUser\<rparr>)))))"

section \<open>The repository: writes\<close>

text \<open>
  \<^verbatim>\<open>Update\<close>: the row with the id and the owner of \<open>t\<close> takes the five editable columns
  of \<open>t\<close> and the database's \<^verbatim>\<open>NOW()\<close>, which is returned; no such row is an error.
  The \<^verbatim>\<open>CHECK\<close> on the type column refuses a type other than income and expense.
\<close>

definition Update :: "Time \<Rightarrow> db \<Rightarrow> Transaction \<Rightarrow> (error + Time) \<times> db" where
  "Update now d t =
     (if Type t \<noteq> ''income'' \<and> Type t \<noteq> ''expense''
      then (Inl (Wrapf ''failed to update transaction'' (External ''check constraint'')), d)
      else if \<not> list_ex (\<lambda>row. ID row = ID t \<and> UserID row = UserID t) (transactions d)
      then (Inl (Errorf ''transaction not found or not owned by user for update''), d)
      else (Inr now,
            d\<lparr>transactions :=
                 map (\<lambda>row. if ID row = ID t \<and> UserID row = UserID t
                           then row\<lparr>Amount := Amount t, Type := Type t, Category := Category t,
                                    Description := Description t,
                                    TransactionDate := TransactionDate t, UpdatedAt := now\<rparr>
                           else row)
                   (transactions d)\<rparr>))"

text \<open>\<^verbatim>\<open>Delete\<close>: no row affected is an error.\<close>

definition Delete :: "db \<Rightarrow> int \<Rightarrow> error option \<times> db" where
  "Delete d tid =
     (if \<not> list_ex (\<lambda>row. ID row = tid) (transactions d)
      then (Some (Errorf ''transaction not found for deletion''), d)
      else (None, d\<lparr>transactions := filter (\<lambda>row. ID row \<noteq> tid) (transactions d)\<rparr>))"

text \<open>\<^verbatim>\<open>UpdateReceiptPath\<close>.\<close>

definition UpdateReceiptPath :: "Time \<Rightarrow> db \<Rightarrow> int \<Rightarrow> string \<Rightarrow> error option \<times> db" where
  "UpdateReceiptPath now d tid receiptPath =
     (if \<not> list_ex (\<lambda>row. ID row = tid) (transactions d)
      then (Some (Errorf ''transaction not found for receipt path update''), d)
      else (None,
            d\<lparr>transactions :=
                 map (\<lambda>row. if ID row = tid
                           then row\<lparr>ReceiptPath := Some receiptPath, UpdatedAt := now\<rparr>
                           else row)
                   (transactions d)\<rparr>))"

section \<open>The service\<close>

text \<open>
  The interface \<^verbatim>\<open>repository.TransactionRepository\<close> the service is written against, over
  a store of any type \<open>'s\<close>: a read returns its result, a write also the store after it.
\<close>

record 's TransactionRepository =
  repo_FindByID :: "'s \<Rightarrow> int \<Rightarrow> error + Transaction option"
  repo_FindByUser :: "'s \<Rightarrow> int \<Rightarrow> UserTransactionFilters \<Rightarrow> error + Transaction list"
  repo_Update :: "'s \<Rightarrow> Transaction \<Rightarrow> (error + Time) \<times> 's"
  repo_Delete :: "'s \<Rightarrow> int \<Rightarrow> error option \<times> 's"
  repo_UpdateReceiptPath :: "'s \<Rightarrow> int \<Rightarrow> string \<Rightarrow> error option \<times> 's"
  repo_FindAll :: "'s \<Rightarrow> AdminTransactionFilters \<Rightarrow> error + Transaction list"
  repo_GetAggregatedStats :: "'s \<Rightarrow> AdminTransactionFilters \<Rightarrow> error + AggregatedStats"

text \<open>The repository of this program, on the database, with the reading of its clock.\<close>

definition transactionRepository :: "Time \<Rightarrow> db TransactionRepository" where
  "transactionRepository now =
     \<lparr>repo_FindByID = FindByID, repo_FindByUser = FindByUser, repo_Update = Update now,
      repo_Delete = Delete, repo_UpdateReceiptPath = UpdateReceiptPath now,
      repo_FindAll = FindAll, repo_GetAggregatedStats = GetAggregatedStats\<rparr>"

text \<open>
  The operating system and path library \<^verbatim>\<open>UploadReceipt\<close> and \<^verbatim>\<open>GetReceiptPath\<close> call, over
  a file system of any type \<open>'f\<close>. \<open>io_Copy\<close> takes the destination path and the bytes read
  from the upload.
\<close>

record 'f OS =
  filepath_Ext :: "string \<Rightarrow> string"
  filepath_Base :: "string \<Rightarrow> string"
  filepath_Join :: "string list \<Rightarrow> string"
  filepath_ToSlash :: "string \<Rightarrow> string"
  filepath_FromSlash :: "string \<Rightarrow> string"
  os_MkdirAll :: "'f \<Rightarrow> string \<Rightarrow> error option \<times> 'f"
  os_Create :: "'f \<Rightarrow> string \<Rightarrow> error option \<times> 'f"
  io_Copy :: "'f \<Rightarrow> string \<Rightarrow> string \<Rightarrow> error option \<times> 'f"
  os_Remove :: "'f \<Rightarrow> string \<Rightarrow> 'f"

text \<open>\<^verbatim>\<open>multipart.FileHeader\<close>: the name, the size, and what \<^verbatim>\<open>Open()\<close> gives.\<close>

record FileHeader =
  Filename :: string
  Size :: int
  Open_result :: "error + string"

text \<open>A character as the number of its byte.\<close>

definition byte :: "char \<Rightarrow> nat" where
  "byte c = of_char c"

definition MaxFileSize :: int where
  "MaxFileSize = 5 * 1024 * 1024"

text \<open>
  \<^verbatim>\<open>strings.ToLower\<close> on the bytes of the string. Go lowers the letters of ASCII as here;
  a rune outside ASCII becomes a rune outside ASCII or one of \<^verbatim>\<open>i\<close> and \<^verbatim>\<open>k\<close>, so the test
  against the four allowed extensions is the one of the program.
\<close>

definition lower_char :: "char \<Rightarrow> char" where
  "lower_char c =
     (if 65 \<le> byte c \<and> byte c \<le> 90 then ''abcdefghijklmnopqrstuvwxyz'' ! (byte c - 65)
      else c)"

definition strings_ToLower :: "string \<Rightarrow> string" where
  "strings_ToLower s = map lower_char s"

text \<open>The map \<^verbatim>\<open>allowedExts\<close>: a key that is not in it reads as false.\<close>

definition allowedExts :: "string \<Rightarrow> bool" where
  "allowedExts ext = (ext \<in> set [''.jpg'', ''.jpeg'', ''.png'', ''.pdf''])"

text \<open>\<^verbatim>\<open>GetTransactionByID\<close>, lines 79 to 92.\<close>

definition GetTransactionByID ::
  "'s TransactionRepository \<Rightarrow> 's \<Rightarrow> int \<Rightarrow> int \<Rightarrow> string \<Rightarrow> error + Transaction" where
  "GetTransactionByID repo s transactionID userID userRole =
     (case repo_FindByID repo s transactionID of
        Inl err \<Rightarrow> Inl (Wrapf ''failed to find transaction by ID'' err)
      | Inr None \<Rightarrow> Inl ErrTransactionNotFound
      | Inr (Some transaction) \<Rightarrow>
          if userRole \<noteq> RoleAdmin \<and> UserID transaction \<noteq> userID then Inl ErrForbidden
          else Inr transaction)"

text \<open>The adjustment of the date filters at the head of \<^verbatim>\<open>GetUserTransactions\<close>, lines 96 to 107.\<close>

definition end_of_day :: "Time \<Rightarrow> Time" where
  "end_of_day t = time_Date (Year t) (Month t) (Day t) 23 59 59 999999999 (Location t)"

definition adjust_dates :: "UserTransactionFilters \<Rightarrow> UserTransactionFilters" where
  "adjust_dates filters =
     (let filters =
            (case StartDate_u filters of
               None \<Rightarrow> filters
             | Some sd \<Rightarrow>
                 if Hour sd = 0 \<and> Minute sd = 0 \<and> Second sd = 0 then
                   (let startOfDay = time_Date (Year sd) (Month sd) (Day sd) 0 0 0 0 (Location sd);
                        filters = filters\<lparr>StartDate_u := Some startOfDay\<rparr>
                    in if EndDate_u filters = None
                       then filters\<lparr>EndDate_u :=
                              Some (time_Date (Year startOfDay) (Month startOfDay) (Day startOfDay)
                                      23 59 59 999999999 (Location startOfDay))\<rparr>
                       else filters)
                 else filters)
      in (case EndDate_u filters of
            None \<Rightarrow> filters
          | Some ed \<Rightarrow>
              if Hour ed = 0 \<and> Minute ed = 0 \<and> Second ed = 0
              then filters\<lparr>EndDate_u :=
                     Some (time_Date (Year ed) (Month ed) (Day ed) 23 59 59 999999999 (Location ed))\<rparr>
              else filters))"

definition GetUserTransactions ::
  "'s TransactionRepository \<Rightarrow> 's \<Rightarrow> int \<Rightarrow> UserTransactionFilters \<Rightarrow> error + Transaction list" where
  "GetUserTransactions repo s userID filters =
     (case repo_FindByUser repo s userID (adjust_dates filters) of
        Inl err \<Rightarrow> Inl (Wrapf ''failed to get user transactions from repo'' err)
      | Inr txs \<Rightarrow> Inr txs)"

text \<open>\<^verbatim>\<open>UpdateTransaction\<close>, lines 116 to 150; \<open>now\<close> is the reading of \<^verbatim>\<open>time.Now()\<close>.\<close>

definition apply_updates :: "UpdateTransactionRequest \<Rightarrow> Time \<Rightarrow> Transaction \<Rightarrow> Transaction" where
  "apply_updates req now existingTx =
     (let existingTx = (case Amount_r req of None \<Rightarrow> existingTx
                        | Some a \<Rightarrow> existingTx\<lparr>Amount := a\<rparr>);
          existingTx = (case Type_r req of None \<Rightarrow> existingTx
                        | Some ty \<Rightarrow> existingTx\<lparr>Type := ty\<rparr>);
          existingTx = (case Category_r req of None \<Rightarrow> existingTx
                        | Some c \<Rightarrow> existingTx\<lparr>Category := c\<rparr>);
          existingTx = (case Description_r req of None \<Rightarrow> existingTx
                        | Some desc \<Rightarrow> existingTx\<lparr>Description := Some desc\<rparr>);
          existingTx = (case TransactionDate_r req of None \<Rightarrow> existingTx
                        | Some td \<Rightarrow> existingTx\<lparr>TransactionDate := td\<rparr>)
      in existingTx\<lparr>UpdatedAt := now\<rparr>)"

definition UpdateTransaction ::
  "'s TransactionRepository \<Rightarrow> 's \<Rightarrow> Time \<Rightarrow> int \<Rightarrow> int \<Rightarrow> UpdateTransactionRequest
     \<Rightarrow> (error + Transaction) \<times> 's" where
  "UpdateTransaction repo s now transactionID userID req =
     (case repo_FindByID repo s transactionID of
        Inl err \<Rightarrow> (Inl (Wrapf ''failed to find transaction for update'' err), s)
      | Inr None \<Rightarrow> (Inl ErrTransactionNotFound, s)
      | Inr (Some existingTx) \<Rightarrow>
          if UserID existingTx \<noteq> userID then (Inl ErrForbidden, s)
          else (let existingTx = apply_updates req now existingTx
                in case repo_Update repo s existingTx of
                     (Inl err, s') \<Rightarrow> (Inl (Wrapf ''failed to update transaction in repo'' err), s')
                   | (Inr updatedAt, s') \<Rightarrow> (Inr (existingTx\<lparr>UpdatedAt := updatedAt\<rparr>), s')))"

text \<open>\<^verbatim>\<open>DeleteTransaction\<close>, lines 152 to 168.\<close>

definition DeleteTransaction ::
  "'s TransactionRepository \<Rightarrow> 's \<Rightarrow> int \<Rightarrow> int \<Rightarrow> string \<Rightarrow> error option \<times> 's" where
  "DeleteTransaction repo s transactionID userID userRole =
     (case repo_FindByID repo s transactionID of
        Inl err \<Rightarrow> (Some (Wrapf ''failed to find transaction for deletion'' err), s)
      | Inr None \<Rightarrow> (Some ErrTransactionNotFound, s)
      | Inr (Some existingTx) \<Rightarrow>
          if userRole \<noteq> RoleAdmin \<and> UserID existingTx \<noteq> userID then (Some ErrForbidden, s)
          else (case repo_Delete repo s transactionID of
                  (Some err, s') \<Rightarrow> (Some (Wrapf ''failed to delete transaction in repo'' err), s')
                | (None, s') \<Rightarrow> (None, s')))"

text \<open>
  \<^verbatim>\<open>UploadReceipt\<close>: lines 192 to 226, what is done once the file has passed the two
  checks, and lines 170 to 190, the lookup, the ownership check and the two checks.
\<close>

definition store_receipt ::
  "'s TransactionRepository \<Rightarrow> 'f OS \<Rightarrow> 's \<Rightarrow> 'f \<Rightarrow> int \<Rightarrow> Transaction \<Rightarrow> FileHeader \<Rightarrow> string
     \<Rightarrow> (error + Transaction) \<times> 's \<times> 'f" where
  "store_receipt repo os s fs transactionID transaction fileHeader baseUploadsDir =
     (let transactionUploadsDir =
            filepath_Join os [baseUploadsDir, ''transactions'', Itoa transactionID]
      in case os_MkdirAll os fs transactionUploadsDir of
           (Some err, fs) \<Rightarrow> (Inl (Wrapf ''failed to create upload directory'' err), s, fs)
         | (None, fs) \<Rightarrow>
             (let fileName = filepath_Base os (Filename fileHeader);
                  filePath = filepath_Join os [transactionUploadsDir, fileName];
                  relativeFilePath = filepath_ToSlash os filePath
              in case Open_result fileHeader of
                   Inl err \<Rightarrow> (Inl (Wrapf ''failed to open uploaded file'' err), s, fs)
                 | Inr src \<Rightarrow>
                     (case os_Create os fs filePath of
                        (Some err, fs) \<Rightarrow>
                          (Inl (Wrapf ''failed to create file on server'' err), s, fs)
                      | (None, fs) \<Rightarrow>
                          (case io_Copy os fs filePath src of
                             (Some err, fs) \<Rightarrow> (Inl (Wrapf ''failed to save file'' err), s, fs)
                           | (None, fs) \<Rightarrow>
                               (case repo_UpdateReceiptPath repo s transactionID relativeFilePath of
                                  (Some err, s) \<Rightarrow>
                                    (Inl (Wrapf ''failed to update transaction with receipt path'' err),
                                     s, os_Remove os fs filePath)
                                | (None, s) \<Rightarrow>
                                    (Inr (transaction\<lparr>ReceiptPath := Some relativeFilePath\<rparr>),
                                     s, fs))))))"

definition UploadReceipt ::
  "'s TransactionRepository \<Rightarrow> 'f OS \<Rightarrow> 's \<Rightarrow> 'f \<Rightarrow> int \<Rightarrow> int \<Rightarrow> FileHeader \<Rightarrow> string
     \<Rightarrow> (error + Transaction) \<times> 's \<times> 'f" where
  "UploadReceipt repo os s fs transactionID userID fileHeader baseUploadsDir =
     (case repo_FindByID repo s transactionID of
        Inl err \<Rightarrow> (Inl (Wrapf ''failed to find transaction for receipt upload'' err), s, fs)
      | Inr None \<Rightarrow> (Inl ErrTransactionNotFound, s, fs)
      | Inr (Some transaction) \<Rightarrow>
          if UserID transaction \<noteq> userID then (Inl ErrForbidden, s, fs)
          else if Size fileHeader > MaxFileSize then (Inl ErrFileSizeExceeded, s, fs)
          else if \<not> allowedExts (strings_ToLower (filepath_Ext os (Filename fileHeader)))
          then (Inl ErrInvalidFileFormat, s, fs)
          else store_receipt repo os s fs transactionID transaction fileHeader baseUploadsDir)"

text \<open>\<^verbatim>\<open>GetReceiptPath\<close>, lines 229 to 250.\<close>

definition GetReceiptPath ::
  "'s TransactionRepository \<Rightarrow> 'f OS \<Rightarrow> 's \<Rightarrow> int \<Rightarrow> int \<Rightarrow> string \<Rightarrow> error + (string \<times> string)" where
  "GetReceiptPath repo os s transactionID userID userRole =
     (case repo_FindByID repo s transactionID of
        Inl err \<Rightarrow> Inl (Wrapf ''failed to find transaction for receipt retrieval'' err)
      | Inr None \<Rightarrow> Inl ErrTransactionNotFound
      | Inr (Some transaction) \<Rightarrow>
          if userRole \<noteq> RoleAdmin \<and> UserID transaction \<noteq> userID then Inl ErrForbidden
          else (case ReceiptPath transaction of
                  None \<Rightarrow> Inl (Errorf ''receipt not found for this transaction'')
                | Some p \<Rightarrow>
                    if p = [] then Inl (Errorf ''receipt not found for this transaction'')
                    else (let fullPath = filepath_FromSlash os p;
                              fileName = filepath_Base os fullPath
                          in Inr (fullPath, fileName))))"

section \<open>The CSV export\<close>

text \<open>
  \<^verbatim>\<open>encoding/csv\<close> with its defaults (comma, no CRLF), writing into a \<^verbatim>\<open>bytes.Buffer\<close>,
  which does not fail. A string is its bytes. \<open>first_rune_is_space\<close> is
  \<^verbatim>\<open>unicode.IsSpace\<close> of the first rune of the UTF-8 text.
\<close>

definition first_rune_is_space :: "string \<Rightarrow> bool" where
  "first_rune_is_space s =
     (case map byte s of
        [] \<Rightarrow> False
      | a # rest \<Rightarrow>
          if a \<in> set [9, 10, 11, 12, 13, 32] then True
          else if a = 194 then (case rest of [] \<Rightarrow> False | b # r \<Rightarrow> b = 133 \<or> b = 160)
          else if a = 225 then take 2 rest = [154, 128]
          else if a = 226 then
            (case rest of
               b # c # r \<Rightarrow>
                 (b = 128 \<and> ((128 \<le> c \<and> c \<le> 138) \<or> c = 168 \<or> c = 169 \<or> c = 175))
                 \<or> (b = 129 \<and> c = 159)
             | _ \<Rightarrow> False)
          else if a = 227 then take 2 rest = [128, 128]
          else False)"

definition fieldNeedsQuotes :: "string \<Rightarrow> bool" where
  "fieldNeedsQuotes field =
     (if field = [] then False
      else if field = [CHR 0x5C, CHR ''.''] then True
      else if list_ex (\<lambda>c. c = CHR 0x0A \<or> c = CHR 0x0D \<or> c = CHR 0x22 \<or> c = CHR '','') field
      then True
      else first_rune_is_space field)"

text \<open>The loop that writes a field inside quotes: a quote is doubled, the rest is copied.\<close>

fun quoted_body :: "string \<Rightarrow> string" where
  "quoted_body [] = []"
| "quoted_body (c # cs) =
     (if c = CHR 0x22 then [CHR 0x22, CHR 0x22]
      else if c = CHR 0x0D then [CHR 0x0D]
      else if c = CHR 0x0A then [CHR 0x0A]
      else [c]) @ quoted_body cs"

definition csv_field :: "string \<Rightarrow> string" where
  "csv_field field =
     (if \<not> fieldNeedsQuotes field then field
      else [CHR 0x22] @ quoted_body field @ [CHR 0x22])"

text \<open>\<^verbatim>\<open>(*csv.Writer).Write\<close>: the fields separated by commas, then a line feed.\<close>

definition csv_Write :: "string \<Rightarrow> string list \<Rightarrow> error + string" where
  "csv_Write w flds = Inr (w @ strings_Join (map csv_field flds) '','' @ [CHR 0x0A])"

text \<open>
  \<^verbatim>\<open>t.Format(time.RFC3339)\<close>, the layout \<^verbatim>\<open>2006-01-02T15:04:05Z07:00\<close>: numbers padded
  with zeros to their width, \<^verbatim>\<open>Z\<close> for the offset 0, else the sign, hours and minutes of
  the offset.
\<close>

definition appendInt :: "int \<Rightarrow> nat \<Rightarrow> string" where
  "appendInt x width =
     (let digits = decimal (nat \<bar>x\<bar>)
      in (if x < 0 then ''-'' else []) @ replicate (width - length digits) CHR ''0'' @ digits)"

definition zone_RFC3339 :: "int \<Rightarrow> string" where
  "zone_RFC3339 offset =
     (if offset = 0 then ''Z''
      else (let zone = \<bar>offset\<bar> div 60
            in (if offset < 0 \<and> zone > 0 then ''-'' else ''+'')
               @ appendInt (zone div 60) 2 @ '':'' @ appendInt (zone mod 60) 2))"

definition Format_RFC3339 :: "Time \<Rightarrow> string" where
  "Format_RFC3339 t =
     appendInt (Year t) 4 @ ''-'' @ appendInt (int (Month t)) 2 @ ''-'' @ appendInt (int (Day t)) 2
     @ ''T'' @ appendInt (int (Hour t)) 2 @ '':'' @ appendInt (int (Minute t)) 2
     @ '':'' @ appendInt (int (Second t)) 2 @ zone_RFC3339 (Location t)"

text \<open>\<^verbatim>\<open>ExportTransactionsCSVAdmin\<close>: the loop over the rows (lines 286 to 308), then the
  whole function.\<close>

fun write_rows :: "string \<Rightarrow> Transaction list \<Rightarrow> error + string" where
  "write_rows w [] = Inr w"
| "write_rows w (t # ts) =
     (let desc = (case Description t of None \<Rightarrow> [] | Some d \<Rightarrow> d);
          receiptPath = (case ReceiptPath t of None \<Rightarrow> [] | Some p \<Rightarrow> p);
          row = [Itoa (ID t), Itoa (UserID t), FormatInt (Amount t), Type t, Category t, desc,
                 Format_RFC3339 (TransactionDate t), Format_RFC3339 (CreatedAt t), receiptPath]
      in case csv_Write w row of
           Inl err \<Rightarrow> Inl (Wrapf ''failed to write CSV row'' err)
         | Inr w \<Rightarrow> write_rows w ts)"

definition ExportTransactionsCSVAdmin ::
  "'s TransactionRepository \<Rightarrow> 's \<Rightarrow> AdminTransactionFilters \<Rightarrow> error + string" where
  "ExportTransactionsCSVAdmin repo s filters =
     (case repo_FindAll repo s filters of
        Inl err \<Rightarrow> Inl (Wrapf ''failed to fetch transactions for CSV export'' err)
      | Inr txs \<Rightarrow>
          (let header = [''ID'', ''UserID'', ''Amount'', ''Type'', ''Category'', ''Description'',
                         ''TransactionDate'', ''CreatedAt'', ''ReceiptPath'']
           in case csv_Write [] header of
                Inl err \<Rightarrow> Inl (Wrapf ''failed to write CSV header'' err)
              | Inr w \<Rightarrow> write_rows w txs))"

text \<open>What the export is expected to hold: the record of a transaction and a line.\<close>

definition csv_record :: "Transaction \<Rightarrow> string list" where
  "csv_record t =
     [Itoa (ID t), Itoa (UserID t), FormatInt (Amount t), Type t, Category t,
      (case Description t of None \<Rightarrow> [] | Some d \<Rightarrow> d),
      Format_RFC3339 (TransactionDate t), Format_RFC3339 (CreatedAt t),
      (case ReceiptPath t of None \<Rightarrow> [] | Some p \<Rightarrow> p)]"

definition csv_line :: "string list \<Rightarrow> string" where
  "csv_line flds = strings_Join (map csv_field flds) '','' @ [CHR 0x0A]"

definition csv_header :: "string list" where
  "csv_header = [''ID'', ''UserID'', ''Amount'', ''Type'', ''Category'', ''Description'',
                 ''TransactionDate'', ''CreatedAt'', ''ReceiptPath'']"

section \<open>An operating system to run the service on\<close>

text \<open>
  The path functions of Go on a system whose separator is the slash, and a file system
  that is a map from paths to contents and never fails.
\<close>

definition unix_Ext :: "string \<Rightarrow> string" where
  "unix_Ext path =
     (let r = rev path;
          tail = takeWhile (\<lambda>c. c \<noteq> CHR ''.'' \<and> c \<noteq> CHR ''/'') r
      in case dropWhile (\<lambda>c. c \<noteq> CHR ''.'' \<and> c \<noteq> CHR ''/'') r of
           [] \<Rightarrow> []
         | c # cs \<Rightarrow> if c = CHR ''.'' then c # rev tail else [])"

definition unix_Base :: "string \<Rightarrow> string" where
  "unix_Base path =
     (if path = [] then ''.''
      else (let p = rev (dropWhile (\<lambda>c. c = CHR ''/'') (rev path));
                b = rev (takeWhile (\<lambda>c. c \<noteq> CHR ''/'') (rev p))
            in if b = [] then ''/'' else b))"

fun split_slash :: "string \<Rightarrow> string \<Rightarrow> string list" where
  "split_slash acc [] = [rev acc]"
| "split_slash acc (c # cs) =
     (if c = CHR ''/'' then rev acc # split_slash [] cs else split_slash (c # acc) cs)"

fun clean_step :: "bool \<Rightarrow> string list \<Rightarrow> string \<Rightarrow> string list" where
  "clean_step rooted stack elem =
     (if elem = [] \<or> elem = ''.'' then stack
      else if elem = ''..'' then
        (case stack of
           [] \<Rightarrow> if rooted then [] else [''..'']
         | e # rest \<Rightarrow> if e = ''..'' then elem # stack else rest)
      else elem # stack)"

definition unix_Clean :: "string \<Rightarrow> string" where
  "unix_Clean path =
     (if path = [] then ''.''
      else (let rooted = (hd path = CHR ''/'');
                stack = foldl (clean_step rooted) [] (split_slash [] path);
                out = (if rooted then ''/'' else []) @ strings_Join (rev stack) ''/''
            in if out = [] then ''.'' else out))"

definition unix_Join :: "string list \<Rightarrow> string" where
  "unix_Join elems =
     (case dropWhile (\<lambda>e. e = []) elems of
        [] \<Rightarrow> []
      | e # es \<Rightarrow> unix_Clean (strings_Join (e # es) ''/''))"

definition unix_os :: "(string \<rightharpoonup> string) OS" where
  "unix_os =
     \<lparr>filepath_Ext = unix_Ext, filepath_Base = unix_Base, filepath_Join = unix_Join,
      filepath_ToSlash = (\<lambda>p. p), filepath_FromSlash = (\<lambda>p. p),
      os_MkdirAll = (\<lambda>fs p. (None, fs)),
      os_Create = (\<lambda>fs p. (None, fs(p \<mapsto> []))),
      io_Copy = (\<lambda>fs p src. (None, fs(p \<mapsto> src))),
      os_Remove = (\<lambda>fs p. fs(p := None))\<rparr>"

section \<open>What a filter selects\<close>

text \<open>
  The filter read as a predicate on a transaction, in the words of the specification:
  every field that is present constrains its own dimension, the constraints are
  conjoined, an absent field constrains nothing. The repository also treats an empty
  type or category string as no constraint.
\<close>

definition admin_filter_matches :: "AdminTransactionFilters \<Rightarrow> Transaction \<Rightarrow> bool" where
  "admin_filter_matches f t =
     ((case UserID_a f of None \<Rightarrow> True | Some uid \<Rightarrow> UserID t = uid)
      \<and> (case Type_a f of None \<Rightarrow> True | Some ty \<Rightarrow> ty = [] \<or> Type t = ty)
      \<and> (case Category_a f of None \<Rightarrow> True | Some c \<Rightarrow> c = [] \<or> Category t = c)
      \<and> (case StartDate_a f of None \<Rightarrow> True
          | Some sd \<Rightarrow> UnixNano sd \<le> UnixNano (TransactionDate t))
      \<and> (case EndDate_a f of None \<Rightarrow> True
          | Some ed \<Rightarrow> UnixNano (TransactionDate t) \<le> UnixNano ed))"

text \<open>The filtered subset: the joined rows whose transaction the filter matches.\<close>

definition filtered :: "db \<Rightarrow> AdminTransactionFilters \<Rightarrow> (Transaction \<times> User) list" where
  "filtered d f = filter (\<lambda>r. admin_filter_matches f (fst r)) (joined d)"

definition of_type :: "string \<Rightarrow> (Transaction \<times> User) list \<Rightarrow> (Transaction \<times> User) list" where
  "of_type ty rows = filter (\<lambda>r. Type (fst r) = ty) rows"

definition of_owner :: "int \<Rightarrow> (Transaction \<times> User) list \<Rightarrow> (Transaction \<times> User) list" where
  "of_owner uid rows = filter (\<lambda>r. UserID (fst r) = uid) rows"

text \<open>The sum of the amounts per category, for the categories that occur in the rows.\<close>

definition category_sums :: "(Transaction \<times> User) list \<Rightarrow> (string \<rightharpoonup> int)" where
  "category_sums rows c =
     (if c \<in> set (map (\<lambda>r. Category (fst r)) rows)
      then Some (sum_amount (filter (\<lambda>r. Category (fst r) = c) rows))
      else None)"

text \<open>The sum over all entries of a Go map of a number read from each value.\<close>

definition map_sum :: "('v \<Rightarrow> int) \<Rightarrow> ('k \<rightharpoonup> 'v) \<Rightarrow> int" where
  "map_sum f m = (\<Sum>k\<in>dom m. f (the (m k)))"

text \<open>
  What a builder holds after any number of its blocks: a statement the database
  accepts, and a count that is the number of the next parameter.
\<close>

definition builder_ok :: "builder \<Rightarrow> bool" where
  "builder_ok b = (case b of (cs, args, n) \<Rightarrow> statement_ok cs args \<and> n = Suc (length args))"

definition builder_matches :: "builder \<Rightarrow> Transaction \<Rightarrow> bool" where
  "builder_matches b t = (case b of (cs, args, n) \<Rightarrow> matching cs args t)"

text \<open>
  The sum of the magnitudes of the amounts of a list of rows: a bound on every sum that
  a statement computes over a part of it.
\<close>

definition abs_amounts :: "(Transaction \<times> User) list \<Rightarrow> int" where
  "abs_amounts rows = sum_list (map (\<lambda>r. \<bar>sint (Amount (fst r))\<bar>) rows)"

section \<open>The shape of a filter\<close>

text \<open>
  The clauses a filter asks for, one per present field in the order of the builder:
  the column, the comparison and the value. \<open>number_from\<close> gives each clause the number
  of its parameter; \<open>clause_values\<close> are the values to bind; \<open>clause_shape\<close> forgets the
  values. Two filters have the same shape when the same fields are present and the
  type and the category are equally empty or non-empty.
\<close>

type_synonym clause = "string \<times> cmp_op \<times> arg"


fun number_from :: "nat \<Rightarrow> clause list \<Rightarrow> cond list" where
  "number_from n [] = []"
| "number_from n ((col, op, v) # cl) = Cond col op n # number_from (Suc n) cl"




section \<open>A ledger to run the program on\<close>

text \<open>
  The scenario of the specification: owner 1 has an expense of 1000 on food on
  2024-01-05 and an income of 5000 as salary on 2024-01-10; the filter names owner 1
  and nothing else.
\<close>

definition jan5 :: Time where
  "jan5 = time_Date 2024 1 5 12 0 0 0 0"

definition jan10 :: Time where
  "jan10 = time_Date 2024 1 10 12 0 0 0 0"

definition tx_food :: Transaction where
  "tx_food = \<lparr>ID = 1, UserID = 1, Amount = 1000, Type = ''expense'', Category = ''food'',
     Description = None, TransactionDate = jan5, ReceiptPath = None, CreatedAt = jan5,
     UpdatedAt = jan5\<rparr>"

definition tx_salary :: Transaction where
  "tx_salary = \<lparr>ID = 2, UserID = 1, Amount = 5000, Type = ''income'', Category = ''salary'',
     Description = None, TransactionDate = jan10, ReceiptPath = None, CreatedAt = jan10,
     UpdatedAt = jan10\<rparr>"

definition user_u1 :: User where
  "user_u1 = \<lparr>ID_u = 1, Phone = ''555'', Role = ''user''\<rparr>"

definition example_db :: db where
  "example_db = \<lparr>transactions = [tx_food, tx_salary], users = [user_u1]\<rparr>"

definition example_filter :: AdminTransactionFilters where
  "example_filter = \<lparr>UserID_a = Some 1, StartDate_a = None, EndDate_a = None,
     Category_a = None, Type_a = None\<rparr>"

definition example_stats :: AggregatedStats where
  "example_stats = \<lparr>TotalIncome = 5000, TotalExpenses = 1000, Balance = 4000,
     ByCategoryIncome = [''salary'' \<mapsto> 5000], ByCategoryExpense = [''food'' \<mapsto> 1000],
     ByUserSpending = [1 \<mapsto> \<lparr>UserID_s = 1, UserPhone = ''555'', TotalSpent = 1000,
                               TotalIncome_s = 5000, TransactionCount = 2\<rparr>]\<rparr>"

text \<open>The same ledger under a filter that also sets the type to income.\<close>

definition example_filter_income :: AdminTransactionFilters where
  "example_filter_income = \<lparr>UserID_a = Some 1, StartDate_a = None, EndDate_a = None,
     Category_a = None, Type_a = Some ''income''\<rparr>"

definition example_stats_income :: AggregatedStats where
  "example_stats_income = \<lparr>TotalIncome = 5000, TotalExpenses = 0, Balance = 5000,
     ByCategoryIncome = [''salary'' \<mapsto> 5000], ByCategoryExpense = Map.empty,
     ByUserSpending = [1 \<mapsto> \<lparr>UserID_s = 1, UserPhone = ''555'', TotalSpent = 0,
                               TotalIncome_s = 5000, TransactionCount = 1\<rparr>]\<rparr>"



text \<open>The repository on that ledger, and requests and uploads to try.\<close>

definition example_repo :: "db TransactionRepository" where
  "example_repo = transactionRepository jan10"

definition no_changes :: UpdateTransactionRequest where
  "no_changes = \<lparr>Amount_r = None, Type_r = None, Category_r = None, Description_r = None,
     TransactionDate_r = None\<rparr>"

definition receipt_jpg :: FileHeader where
  "receipt_jpg = \<lparr>Filename = ''receipt.JPG'', Size = 1024, Open_result = Inr ''bytes''\<rparr>"

definition receipt_exe :: FileHeader where
  "receipt_exe = \<lparr>Filename = ''tool.exe'', Size = 1024, Open_result = Inr ''bytes''\<rparr>"

definition receipt_big_jpg :: FileHeader where
  "receipt_big_jpg = \<lparr>Filename = ''scan.jpg'', Size = 6 * 1024 * 1024, Open_result = Inr ''bytes''\<rparr>"

definition receipt_big_exe :: FileHeader where
  "receipt_big_exe = \<lparr>Filename = ''tool.exe'', Size = 6 * 1024 * 1024, Open_result = Inr ''bytes''\<rparr>"

text \<open>
  The ledger after owner 1 has uploaded \<^verbatim>\<open>receipt.JPG\<close> for record 1 into \<^verbatim>\<open>uploads\<close> at the
  clock reading of the repository: the row has the path and the new update time.
\<close>

definition tx_food_receipt :: Transaction where
  "tx_food_receipt = tx_food\<lparr>ReceiptPath := Some ''uploads/transactions/1/receipt.JPG'',
     UpdatedAt := jan10\<rparr>"

definition example_db_receipt :: db where
  "example_db_receipt = \<lparr>transactions = [tx_food_receipt, tx_salary], users = [user_u1]\<rparr>"

text \<open>The first instant of the calendar day of a time.\<close>

definition start_of_day :: "Time \<Rightarrow> Time" where
  "start_of_day t = time_Date (Year t) (Month t) (Day t) 0 0 0 0 (Location t)"

text \<open>Owner 1 asks for the day 2024-01-05, by its date alone and by the explicit range.\<close>

definition filter_jan5 :: UserTransactionFilters where
  "filter_jan5 = \<lparr>Type_u = None, Category_u = None,
     StartDate_u = Some (time_Date 2024 1 5 0 0 0 0 0), EndDate_u = None\<rparr>"

definition filter_jan5_range :: UserTransactionFilters where
  "filter_jan5_range = \<lparr>Type_u = None, Category_u = None,
     StartDate_u = Some (time_Date 2024 1 5 0 0 0 0 0),
     EndDate_u = Some (time_Date 2024 1 5 23 59 59 999999999 0)\<rparr>"

section \<open>Properties of the aggregated statistics\<close>

subsection \<open>Scanning and the sections of the call\<close>

lemma scan_int64_Inr: "scan_int64 v = Inr w \<Longrightarrow> sint w = v"
  unfolding scan_int64_def
  by (auto split: if_splits simp: sint_sbintrunc' signed_take_bit_int_eq_self)

lemma totals_section_Inr:
  assumes "totals_section d f s = Inr st"
  shows "Balance st = TotalIncome st - TotalExpenses st"
    and "ByCategoryIncome st = ByCategoryIncome s"
    and "ByCategoryExpense st = ByCategoryExpense s"
    and "ByUserSpending st = ByUserSpending s"
  using assms unfolding totals_section_def
  by (auto split: prod.splits sum.splits option.splits if_splits simp: Let_def)

lemma GetAggregatedStats_Inr:
  assumes "GetAggregatedStats d f = Inr stats"
  shows "\<exists>st. totals_section d f \<lparr>TotalIncome = 0, TotalExpenses = 0, Balance = 0,
                   ByCategoryIncome = Map.empty, ByCategoryExpense = Map.empty,
                   ByUserSpending = Map.empty\<rparr> = Inr st
          \<and> category_section d TransactionTypeIncome ''failed to get income by category''
                ''failed to scan income by category'' f (ByCategoryIncome st)
              = Inr (ByCategoryIncome stats)
          \<and> category_section d TransactionTypeExpense ''failed to get expense by category''
                ''failed to scan expense by category'' f (ByCategoryExpense st)
              = Inr (ByCategoryExpense stats)
          \<and> user_section d f (ByUserSpending st) = Inr (ByUserSpending stats)
          \<and> TotalIncome stats = TotalIncome st \<and> TotalExpenses stats = TotalExpenses st
          \<and> Balance stats = Balance st"
  using assms unfolding GetAggregatedStats_def
  by (auto split: sum.splits simp: Let_def)

lemma scan_int64_Inl: "scan_int64 v = Inl e \<Longrightarrow> \<not> errors_Is e ErrNoRows"
  unfolding scan_int64_def by (auto split: if_splits)

subsection \<open>Sums over groups\<close>

lemma sum_list_absent_key:
  fixes v :: int
  shows "a \<notin> set cs \<Longrightarrow> (\<Sum>c\<leftarrow>cs. if a = c then v else 0) = 0"
  by (induction cs) auto

lemma sum_list_single_key:
  fixes v :: int
  shows "distinct cs \<Longrightarrow> a \<in> set cs \<Longrightarrow> (\<Sum>c\<leftarrow>cs. if a = c then v else 0) = v"
  by (induction cs) (auto simp: sum_list_absent_key)

lemma sum_list_groups_gen:
  fixes g :: "'a \<Rightarrow> int"
  assumes "distinct cs"
  shows "set (map k R) \<subseteq> set cs \<Longrightarrow>
    (\<Sum>c\<leftarrow>cs. sum_list (map g (filter (\<lambda>r. k r = c) R))) = sum_list (map g R)"
proof (induction R)
  case Nil
  then show ?case by simp
next
  case (Cons r R)
  have "(\<Sum>c\<leftarrow>cs. sum_list (map g (filter (\<lambda>x. k x = c) (r # R))))
      = (\<Sum>c\<leftarrow>cs. (if k r = c then g r else 0) + sum_list (map g (filter (\<lambda>x. k x = c) R)))"
    by (rule arg_cong [where f = sum_list], rule map_cong) auto
  also have "\<dots> = (\<Sum>c\<leftarrow>cs. if k r = c then g r else 0)
                  + (\<Sum>c\<leftarrow>cs. sum_list (map g (filter (\<lambda>x. k x = c) R)))"
    by (simp add: sum_list_addf)
  also have "\<dots> = g r + sum_list (map g R)"
    using Cons assms by (simp add: sum_list_single_key)
  finally show ?case by simp
qed

lemma sum_list_groups:
  fixes g :: "'a \<Rightarrow> int"
  shows "(\<Sum>c\<leftarrow>remdups (map k R). sum_list (map g (filter (\<lambda>r. k r = c) R))) = sum_list (map g R)"
  by (rule sum_list_groups_gen) auto

lemma map_sum_empty: "map_sum f Map.empty = 0"
  by (simp add: map_sum_def)

lemma map_sum_upd:
  assumes "finite (dom m)" "k \<notin> dom m"
  shows "map_sum f (m(k \<mapsto> v)) = map_sum f m + f v"
proof -
  have eq: "(\<Sum>x\<in>dom m. f (the ((m(k \<mapsto> v)) x))) = (\<Sum>x\<in>dom m. f (the (m x)))"
    using assms(2) by (intro sum.cong) auto
  have "map_sum f (m(k \<mapsto> v)) = (\<Sum>x\<in>insert k (dom m). f (the ((m(k \<mapsto> v)) x)))"
    unfolding map_sum_def by (rule sum.cong) auto
  also have "\<dots> = f (the ((m(k \<mapsto> v)) k)) + (\<Sum>x\<in>dom m. f (the ((m(k \<mapsto> v)) x)))"
    using assms by (rule sum.insert)
  finally show ?thesis
    unfolding eq by (simp add: map_sum_def)
qed

subsection \<open>The loops over the rows\<close>

lemma scan_category_rows_sum:
  "scan_category_rows msg rows m = Inr m' \<Longrightarrow> distinct (map fst rows) \<Longrightarrow>
   set (map fst rows) \<inter> dom m = {} \<Longrightarrow> finite (dom m) \<Longrightarrow>
   dom m' = dom m \<union> set (map fst rows) \<and> map_sum sint m' = map_sum sint m + sum_list (map snd rows)"
proof (induction msg rows m rule: scan_category_rows.induct)
  case (1 msg m)
  then show ?case by simp
next
  case (2 msg category csum rows m)
  from "2.prems"(1) obtain v where v: "scan_int64 csum = Inr v"
    and rest: "scan_category_rows msg rows (m(category \<mapsto> v)) = Inr m'"
    by (auto split: sum.splits)
  have notin: "category \<notin> dom m" using "2.prems"(3) by auto
  have d: "distinct (map fst rows)" and nc: "category \<notin> set (map fst rows)"
    using "2.prems"(2) by auto
  have disj: "set (map fst rows) \<inter> dom (m(category \<mapsto> v)) = {}"
    using "2.prems"(3) nc by auto
  have fin: "finite (dom (m(category \<mapsto> v)))"
    using "2.prems"(4) by simp
  have ih: "dom m' = dom (m(category \<mapsto> v)) \<union> set (map fst rows)
        \<and> map_sum sint m' = map_sum sint (m(category \<mapsto> v)) + sum_list (map snd rows)"
    using "2.IH" [OF v rest d disj fin] .
  have "map_sum sint (m(category \<mapsto> v)) = map_sum sint m + csum"
    using map_sum_upd [OF "2.prems"(4) notin, of sint v] scan_int64_Inr [OF v] by simp
  with ih show ?case by auto
qed

lemma scan_category_rows_lookup:
  "scan_category_rows msg rows m = Inr m' \<Longrightarrow> distinct (map fst rows) \<Longrightarrow>
   map_option sint (m' c) = (case map_of rows c of Some s \<Rightarrow> Some s | None \<Rightarrow> map_option sint (m c))"
proof (induction msg rows m rule: scan_category_rows.induct)
  case (1 msg m)
  then show ?case by simp
next
  case (2 msg category csum rows m)
  from "2.prems"(1) obtain v where v: "scan_int64 csum = Inr v"
    and rest: "scan_category_rows msg rows (m(category \<mapsto> v)) = Inr m'"
    by (auto split: sum.splits)
  have d: "distinct (map fst rows)" and nc: "category \<notin> set (map fst rows)"
    using "2.prems"(2) by auto
  have none: "map_of rows category = None"
    using nc by (simp add: map_of_eq_None_iff)
  show ?case
    using "2.IH" [OF v rest d] scan_int64_Inr [OF v] none
    by (auto split: option.splits)
qed

subsection \<open>The builder\<close>

lemma cond_ok_append: "cond_ok args c \<Longrightarrow> cond_ok (args @ [v]) c"
  by (cases c) (auto simp: nth_append)

lemma holds_append: "cond_ok args c \<Longrightarrow> holds (args @ [v]) t c = holds args t c"
  by (cases c) (auto simp: nth_append)

lemma statement_ok_snoc:
  assumes "statement_ok cs args" "column_type col = Some (arg_type v)"
    "op = OpEq \<or> column_type col \<noteq> Some TText"
  shows "statement_ok (cs @ [Cond col op (Suc (length args))]) (args @ [v])"
  using assms unfolding statement_ok_def
  by (auto simp: list_all_iff cond_ok_append)

lemma matching_snoc:
  assumes "statement_ok cs args"
  shows "matching (cs @ [Cond col op (Suc (length args))]) (args @ [v]) t
         = (matching cs args t \<and> compare_args op (column_value col t) v)"
  using assms unfolding statement_ok_def matching_def
  by (auto simp: list_all_iff holds_append)

lemma builder_ok_add:
  assumes "builder_ok b" "column_type col = Some (arg_type v)"
    "op = OpEq \<or> column_type col \<noteq> Some TText"
  shows "builder_ok (add_condition col op v b)"
  using assms statement_ok_snoc unfolding builder_ok_def add_condition_def
  by (auto split: prod.splits)

lemma builder_ok_init: "builder_ok ([], [], Suc 0)"
  by (simp add: builder_ok_def statement_ok_def)

lemma builder_matches_add:
  assumes "builder_ok b"
  shows "builder_matches (add_condition col op v b) t
         = (builder_matches b t \<and> compare_args op (column_value col t) v)"
  using assms matching_snoc unfolding builder_ok_def builder_matches_def add_condition_def
  by (auto split: prod.splits)

lemma stats_conditions_ok: "builder_ok (stats_conditions f)"
  unfolding stats_conditions_def Let_def
  by (simp split: option.splits add: builder_ok_add builder_ok_init column_type_def)

lemma stats_conditions_matches:
  "builder_matches (stats_conditions f) t = admin_filter_matches f t"
proof -
  have init: "builder_matches ([], [], Suc 0) t" by (simp add: builder_matches_def matching_def)
  show ?thesis
    unfolding stats_conditions_def Let_def admin_filter_matches_def
    by (simp split: option.splits
        add: builder_matches_add builder_ok_add builder_ok_init column_type_def column_value_def init)
qed

lemma selected_stats_conditions:
  assumes "stats_conditions f = (cs, args, n)"
  shows "selected d cs args = filtered d f"
    and "statement_ok cs args" and "n = Suc (length args)"
proof -
  have "matching cs args t = admin_filter_matches f t" for t
    using stats_conditions_matches [of f t] assms by (simp add: builder_matches_def)
  then show "selected d cs args = filtered d f"
    by (simp add: selected_def filtered_def)
  show "statement_ok cs args" "n = Suc (length args)"
    using stats_conditions_ok [of f] assms by (simp_all add: builder_ok_def)
qed

subsection \<open>The totals\<close>

lemma totals_section_values:
  assumes "totals_section d f s = Inr st"
  shows "sint (TotalIncome st) = sum_of_type ''income'' (filtered d f)"
    and "sint (TotalExpenses st) = sum_of_type ''expense'' (filtered d f)"
proof -
  obtain cs args n where b: "stats_conditions f = (cs, args, n)"
    by (cases "stats_conditions f") auto
  note sel = selected_stats_conditions [OF b]
  have q: "query_totals d (fst (sumQuery f)) (snd (sumQuery f))
           = Inr (sum_of_type ''income'' (filtered d f), sum_of_type ''expense'' (filtered d f))"
    by (simp add: query_totals_def sumQuery_def b sel Let_def)
  from assms obtain x y where
      x: "scan_int64 (sum_of_type ''income'' (filtered d f)) = Inr x"
    and y: "scan_int64 (sum_of_type ''expense'' (filtered d f)) = Inr y"
    and st: "TotalIncome st = x" "TotalExpenses st = y"
    using q unfolding totals_section_def
    by (auto split: prod.splits sum.splits option.splits if_splits simp: Let_def
        dest: scan_int64_Inl)
  show "sint (TotalIncome st) = sum_of_type ''income'' (filtered d f)"
    using scan_int64_Inr [OF x] st by simp
  show "sint (TotalExpenses st) = sum_of_type ''expense'' (filtered d f)"
    using scan_int64_Inr [OF y] st by simp
qed

subsection \<open>The category sections\<close>

lemma sum_amount_of_type: "sum_amount (of_type ty rows) = sum_of_type ty rows"
  by (simp add: sum_amount_def of_type_def sum_of_type_def sum_list_map_filter')

lemma sum_of_type_only:
  assumes "\<And>r. r \<in> set rows \<Longrightarrow> Type (fst r) = ty"
  shows "sum_of_type ty rows = sum_amount rows"
    and "ty' \<noteq> ty \<Longrightarrow> sum_of_type ty' rows = 0"
proof -
  show "sum_of_type ty rows = sum_amount rows"
    unfolding sum_of_type_def sum_amount_def
    by (rule arg_cong [where f = sum_list], rule map_cong) (auto simp: assms)
  assume "ty' \<noteq> ty"
  then have "map (\<lambda>r. if Type (fst r) = ty' then sint (Amount (fst r)) else 0) rows
        = map (\<lambda>r. 0) rows"
    by (intro map_cong) (auto simp: assms)
  then have "sum_of_type ty' rows = sum_list (map (\<lambda>r. 0) rows)"
    unfolding sum_of_type_def by (rule arg_cong)
  then show "sum_of_type ty' rows = 0"
    by simp
qed

lemma grouped_categories:
  fixes rows :: "(Transaction \<times> User) list"
  defines "g \<equiv> map (\<lambda>c. (c, sum_amount (filter (\<lambda>r. Category (fst r) = c) rows)))
                   (remdups (map (\<lambda>r. Category (fst r)) rows))"
  shows "distinct (map fst g)"
    and "sum_list (map snd g) = sum_amount rows"
    and "map_of g = category_sums rows"
proof -
  show "distinct (map fst g)"
    by (simp add: g_def o_def)
  show "sum_list (map snd g) = sum_amount rows"
    unfolding g_def sum_amount_def
    using sum_list_groups [of "\<lambda>r. sint (Amount (fst r))" "\<lambda>r. Category (fst r)" rows]
    by (simp add: o_def)
  show "map_of g = category_sums rows"
  proof
    fix c
    show "map_of g c = category_sums rows c"
      unfolding g_def category_sums_def
      by (simp add: map_of_map_restrict restrict_map_def)
  qed
qed

lemma query_by_category_ok:
  assumes "statement_ok (conds q) args"
  shows "query_by_category d q args
         = Inr (map (\<lambda>c. (c, sum_amount (filter (\<lambda>r. Category (fst r) = c) (selected d (conds q) args))))
                 (remdups (map (\<lambda>r. Category (fst r)) (selected d (conds q) args))))"
  using assms by (simp add: query_by_category_def Let_def)

lemma category_rows_scanned:
  assumes "statement_ok (conds q) args"
    and "(case query_by_category d q args of
            Inl err \<Rightarrow> Inl (Wrapf m1 err)
          | Inr rows \<Rightarrow> scan_category_rows m2 rows Map.empty) = Inr m"
  shows "(\<lambda>c. map_option sint (m c)) = category_sums (selected d (conds q) args)"
    and "map_sum sint m = sum_amount (selected d (conds q) args)"
proof -
  let ?rows = "selected d (conds q) args"
  let ?g = "map (\<lambda>c. (c, sum_amount (filter (\<lambda>r. Category (fst r) = c) ?rows)))
                (remdups (map (\<lambda>r. Category (fst r)) ?rows))"
  have scan: "scan_category_rows m2 ?g Map.empty = Inr m"
    using assms(2) by (simp add: query_by_category_ok [OF assms(1)])
  note g = grouped_categories [of ?rows]
  show "(\<lambda>c. map_option sint (m c)) = category_sums ?rows"
  proof
    fix c
    show "map_option sint (m c) = category_sums ?rows c"
      using scan_category_rows_lookup [OF scan g(1), of c] g(3)
      by (auto split: option.splits)
  qed
  show "map_sum sint m = sum_amount ?rows"
    using scan_category_rows_sum [OF scan g(1)] g(2)
    by (simp add: map_sum_empty)
qed

lemma categoryQuery_no_type:
  assumes "Type_a f = None" "stats_conditions f = (cs, args, n)"
  shows "conds (fst (categoryQuery ty f)) = cs @ [Cond ''t.type'' OpEq (Suc (length args))]"
    and "snd (categoryQuery ty f) = args @ [StrArg ty]"
  using assms selected_stats_conditions(3) [OF assms(2)]
  by (simp_all add: categoryQuery_def Let_def)

lemma categoryQuery_with_type:
  assumes "Type_a f = Some ty'" "stats_conditions f = (cs, args, n)"
  shows "conds (fst (categoryQuery ty f)) = cs"
    and "snd (categoryQuery ty f) = args"
  using assms by (simp_all add: categoryQuery_def Let_def)

lemma category_section_no_type:
  assumes "category_section d ty m1 m2 f Map.empty = Inr m" "Type_a f = None"
  shows "(\<lambda>c. map_option sint (m c)) = category_sums (of_type ty (filtered d f))"
    and "map_sum sint m = sum_of_type ty (filtered d f)"
proof -
  obtain cs args n where b: "stats_conditions f = (cs, args, n)"
    by (cases "stats_conditions f") auto
  note sel = selected_stats_conditions [OF b]
  note cq = categoryQuery_no_type [OF assms(2) b, of ty]
  obtain q qargs where q: "categoryQuery ty f = (q, qargs)"
    by (cases "categoryQuery ty f") auto
  have qc: "conds q = cs @ [Cond ''t.type'' OpEq (Suc (length args))]" and qa: "qargs = args @ [StrArg ty]"
    using cq q by simp_all
  have ok: "statement_ok (conds q) qargs"
    unfolding qc qa by (rule statement_ok_snoc [OF sel(2)]) (simp_all add: column_type_def)
  have rows: "selected d (conds q) qargs = of_type ty (filtered d f)"
    unfolding qc qa selected_def of_type_def sel(1) [symmetric, of d]
    by (simp add: matching_snoc [OF sel(2)] column_value_def conj_commute)
  have run: "(case query_by_category d q qargs of
            Inl err \<Rightarrow> Inl (Wrapf m1 err)
          | Inr rows \<Rightarrow> scan_category_rows m2 rows Map.empty) = Inr m"
    using assms by (simp add: category_section_def q)
  show "(\<lambda>c. map_option sint (m c)) = category_sums (of_type ty (filtered d f))"
    using category_rows_scanned(1) [OF ok run] rows by simp
  show "map_sum sint m = sum_of_type ty (filtered d f)"
    using category_rows_scanned(2) [OF ok run] rows by (simp add: sum_amount_of_type)
qed

lemma filtered_with_type:
  assumes "Type_a f = Some ty" "ty \<noteq> []" "r \<in> set (filtered d f)"
  shows "Type (fst r) = ty"
  using assms by (auto simp: filtered_def admin_filter_matches_def)

lemma category_section_same_type:
  assumes "category_section d ty m1 m2 f Map.empty = Inr m" "Type_a f = Some ty" "ty \<noteq> []"
  shows "(\<lambda>c. map_option sint (m c)) = category_sums (filtered d f)"
    and "map_sum sint m = sum_of_type ty (filtered d f)"
proof -
  obtain cs args n where b: "stats_conditions f = (cs, args, n)"
    by (cases "stats_conditions f") auto
  note sel = selected_stats_conditions [OF b]
  note cq = categoryQuery_with_type [OF assms(2) b, of ty]
  obtain q qargs where q: "categoryQuery ty f = (q, qargs)"
    by (cases "categoryQuery ty f") auto
  have qc: "conds q = cs" and qa: "qargs = args"
    using cq q by simp_all
  have ok: "statement_ok (conds q) qargs"
    unfolding qc qa by (rule sel(2))
  have rows: "selected d (conds q) qargs = filtered d f"
    unfolding qc qa by (rule sel(1))
  have run: "(case query_by_category d q qargs of
            Inl err \<Rightarrow> Inl (Wrapf m1 err)
          | Inr rows \<Rightarrow> scan_category_rows m2 rows Map.empty) = Inr m"
    using assms by (simp add: category_section_def q)
  show "(\<lambda>c. map_option sint (m c)) = category_sums (filtered d f)"
    using category_rows_scanned(1) [OF ok run] rows by simp
  show "map_sum sint m = sum_of_type ty (filtered d f)"
    using category_rows_scanned(2) [OF ok run] rows
      sum_of_type_only(1) [of "filtered d f" ty, OF filtered_with_type [OF assms(2,3)]]
    by simp
qed

lemma category_section_other_type:
  assumes "category_section d ty m1 m2 f m0 = Inr m" "Type_a f = Some ty'" "ty' \<noteq> ty"
  shows "m = m0"
  using assms by (simp add: category_section_def)

subsection \<open>The per-user section\<close>

lemma map_sum_distinct_keys:
  assumes "dom m = set ks" "distinct ks"
  shows "map_sum f m = sum_list (map (\<lambda>k. f (the (m k))) ks)"
  unfolding map_sum_def assms(1)
  by (simp add: sum_list_distinct_conv_sum_set [OF assms(2)])

lemma scan_user_rows_lookup:
  "scan_user_rows rows m = Inr m' \<Longrightarrow> distinct (map fst rows) \<Longrightarrow>
   dom m' = dom m \<union> set (map fst rows)
   \<and> (\<forall>r\<in>set rows. \<exists>u. m' (fst r) = Some u \<and> UserID_s u = fst r \<and> UserPhone u = fst (snd r)
          \<and> sint (TotalSpent u) = fst (snd (snd r))
          \<and> sint (TotalIncome_s u) = fst (snd (snd (snd r)))
          \<and> sint (TransactionCount u) = snd (snd (snd (snd r))))
   \<and> (\<forall>k. k \<notin> set (map fst rows) \<longrightarrow> m' k = m k)"
proof (induction rows m rule: scan_user_rows.induct)
  case (1 m)
  then show ?case by simp
next
  case (2 uid phone spent income cnt rows m)
  from "2.prems"(1) obtain s i c where s: "scan_int64 spent = Inr s"
    and i: "scan_int64 income = Inr i" and c: "scan_int64 cnt = Inr c"
    and rest: "scan_user_rows rows (m(uid \<mapsto> \<lparr>UserID_s = uid, UserPhone = phone, TotalSpent = s,
                                 TotalIncome_s = i, TransactionCount = c\<rparr>)) = Inr m'"
    by (auto split: sum.splits)
  have d: "distinct (map fst rows)" and nc: "uid \<notin> set (map fst rows)"
    using "2.prems"(2) by auto
  note ih = "2.IH" [OF s i c rest d]
  have here: "m' uid = Some \<lparr>UserID_s = uid, UserPhone = phone, TotalSpent = s,
                                 TotalIncome_s = i, TransactionCount = c\<rparr>"
    using ih nc by simp
  show ?case
    using ih here nc scan_int64_Inr [OF s] scan_int64_Inr [OF i] scan_int64_Inr [OF c]
    by auto
qed

lemma joined_user_unique:
  assumes "distinct (map ID_u (users d))"
    and "r \<in> set (joined d)" "r' \<in> set (joined d)" "UserID (fst r) = UserID (fst r')"
  shows "snd r = snd r'"
proof -
  have inj: "inj_on ID_u (set (users d))"
    using assms(1) by (simp add: distinct_map)
  have "snd r \<in> set (users d)" "ID_u (snd r) = UserID (fst r)"
    "snd r' \<in> set (users d)" "ID_u (snd r') = UserID (fst r')"
    using assms(2,3) by (auto simp: joined_def)
  then have "snd r \<in> set (users d)" "snd r' \<in> set (users d)" "ID_u (snd r) = ID_u (snd r')"
    using assms(4) by simp_all
  then show ?thesis
    using inj by (rule_tac inj_onD [where f = ID_u])
qed

lemma user_groups:
  assumes pk: "distinct (map ID_u (users d))" and sub: "set rows \<subseteq> set (joined d)"
  shows "distinct (map fst (remdups (map user_key rows)))"
    and "k \<in> set (map user_key rows) \<Longrightarrow> filter (\<lambda>r. user_key r = k) rows = of_owner (fst k) rows"
proof -
  have same: "user_key r = user_key r'"
    if "r \<in> set rows" "r' \<in> set rows" "UserID (fst r) = UserID (fst r')" for r r'
  proof -
    have "r \<in> set (joined d)" "r' \<in> set (joined d)" using that sub by auto
    then have "snd r = snd r'" using joined_user_unique [OF pk] that(3) by blast
    then show ?thesis using that(3) by (simp add: user_key_def)
  qed
  have "inj_on fst (set (map user_key rows))"
  proof (rule inj_onI)
    fix a b assume "a \<in> set (map user_key rows)" "b \<in> set (map user_key rows)" "fst a = fst b"
    then obtain r r' where rr: "r \<in> set rows" "r' \<in> set rows" "UserID (fst r) = UserID (fst r')"
      and ab: "a = user_key r" "b = user_key r'"
      by (auto simp: user_key_def)
    show "a = b" unfolding ab by (rule same [OF rr])
  qed
  then show "distinct (map fst (remdups (map user_key rows)))"
    by (simp add: distinct_map)
  assume "k \<in> set (map user_key rows)"
  then obtain r0 where r0: "r0 \<in> set rows" "k = user_key r0" by auto
  show "filter (\<lambda>r. user_key r = k) rows = of_owner (fst k) rows"
    unfolding of_owner_def
  proof (rule filter_cong [OF refl])
    fix r assume "r \<in> set rows"
    then have "UserID (fst r) = UserID (fst r0) \<Longrightarrow> user_key r = user_key r0"
      using r0(1) by (rule same)
    then show "(user_key r = k) = (UserID (fst r) = fst k)"
      unfolding r0(2) by (auto simp: user_key_def)
  qed
qed

lemma user_section_values:
  assumes pk: "distinct (map ID_u (users d))"
    and run: "user_section d f Map.empty = Inr m"
  shows "dom m = (\<lambda>r. UserID (fst r)) ` set (filtered d f)"
    and "map_sum (\<lambda>u. sint (TotalSpent u)) m = sum_of_type ''expense'' (filtered d f)"
    and "map_sum (\<lambda>u. sint (TotalIncome_s u)) m = sum_of_type ''income'' (filtered d f)"
    and "uid \<in> dom m \<Longrightarrow>
          \<exists>u. m uid = Some u \<and> UserID_s u = uid
             \<and> sint (TotalSpent u) = sum_of_type ''expense'' (of_owner uid (filtered d f))
             \<and> sint (TotalIncome_s u) = sum_of_type ''income'' (of_owner uid (filtered d f))
             \<and> sint (TransactionCount u) = int (length (of_owner uid (filtered d f)))"
proof -
  obtain cs args n where b: "stats_conditions f = (cs, args, n)"
    by (cases "stats_conditions f") auto
  note sel = selected_stats_conditions [OF b]
  let ?rows = "filtered d f"
  let ?keys = "remdups (map user_key ?rows)"
  let ?row = "\<lambda>k. (fst k, snd k, sum_of_type ''expense'' (filter (\<lambda>r. user_key r = k) ?rows),
                    sum_of_type ''income'' (filter (\<lambda>r. user_key r = k) ?rows),
                    int (length (filter (\<lambda>r. user_key r = k) ?rows)))"
  let ?res = "map ?row ?keys"
  have sub: "set ?rows \<subseteq> set (joined d)" by (auto simp: filtered_def)
  note ug = user_groups [OF pk sub]
  have scan: "scan_user_rows ?res Map.empty = Inr m"
    using run by (simp add: user_section_def userSpendingQuery_def b query_by_user_def sel Let_def)
  have fsts: "map fst ?res = map fst ?keys" by (simp add: o_def)
  have dist: "distinct (map fst ?res)" unfolding fsts by (rule ug(1))
  note lk = scan_user_rows_lookup [OF scan dist]
  have dom_m: "dom m = set (map fst ?res)" using lk by (simp del: set_map map_map)
  show "dom m = (\<lambda>r. UserID (fst r)) ` set ?rows"
    unfolding dom_m fsts by (force simp: user_key_def)
  have val: "\<exists>u. m (fst k) = Some u \<and> UserID_s u = fst k
                \<and> sint (TotalSpent u) = sum_of_type ''expense'' (of_owner (fst k) ?rows)
                \<and> sint (TotalIncome_s u) = sum_of_type ''income'' (of_owner (fst k) ?rows)
                \<and> sint (TransactionCount u) = int (length (of_owner (fst k) ?rows))"
    if k: "k \<in> set ?keys" for k
  proof -
    have "?row k \<in> set ?res" using k by simp
    then have "\<exists>u. m (fst (?row k)) = Some u \<and> UserID_s u = fst (?row k)
          \<and> UserPhone u = fst (snd (?row k))
          \<and> sint (TotalSpent u) = fst (snd (snd (?row k)))
          \<and> sint (TotalIncome_s u) = fst (snd (snd (snd (?row k))))
          \<and> sint (TransactionCount u) = snd (snd (snd (snd (?row k))))"
      using lk by blast
    moreover have "filter (\<lambda>r. user_key r = k) ?rows = of_owner (fst k) ?rows"
      using ug(2) k by simp
    ultimately show ?thesis by auto
  qed
  have sums: "map_sum h m = sum_list (map (\<lambda>k. h (the (m (fst k)))) ?keys)" for h :: "UserStat \<Rightarrow> int"
    using map_sum_distinct_keys [of m "map fst ?keys" h] dom_m fsts ug(1)
    by (simp add: o_def)
  have "map_sum (\<lambda>u. sint (TotalSpent u)) m
        = sum_list (map (\<lambda>k. sum_of_type ''expense'' (filter (\<lambda>r. user_key r = k) ?rows)) ?keys)"
    unfolding sums
  proof (rule arg_cong [where f = sum_list], rule map_cong [OF refl])
    fix k assume k: "k \<in> set ?keys"
    from val [OF k] ug(2) [of k] k
    show "sint (TotalSpent (the (m (fst k)))) = sum_of_type ''expense'' (filter (\<lambda>r. user_key r = k) ?rows)"
      by auto
  qed
  also have "\<dots> = sum_of_type ''expense'' ?rows"
    unfolding sum_of_type_def by (rule sum_list_groups)
  finally show "map_sum (\<lambda>u. sint (TotalSpent u)) m = sum_of_type ''expense'' ?rows" .
  have "map_sum (\<lambda>u. sint (TotalIncome_s u)) m
        = sum_list (map (\<lambda>k. sum_of_type ''income'' (filter (\<lambda>r. user_key r = k) ?rows)) ?keys)"
    unfolding sums
  proof (rule arg_cong [where f = sum_list], rule map_cong [OF refl])
    fix k assume k: "k \<in> set ?keys"
    from val [OF k] ug(2) [of k] k
    show "sint (TotalIncome_s (the (m (fst k)))) = sum_of_type ''income'' (filter (\<lambda>r. user_key r = k) ?rows)"
      by auto
  qed
  also have "\<dots> = sum_of_type ''income'' ?rows"
    unfolding sum_of_type_def by (rule sum_list_groups)
  finally show "map_sum (\<lambda>u. sint (TotalIncome_s u)) m = sum_of_type ''income'' ?rows" .
  assume "uid \<in> dom m"
  then obtain k where "k \<in> set ?keys" "uid = fst k"
    unfolding dom_m fsts by auto
  then show "\<exists>u. m uid = Some u \<and> UserID_s u = uid
             \<and> sint (TotalSpent u) = sum_of_type ''expense'' (of_owner uid ?rows)
             \<and> sint (TotalIncome_s u) = sum_of_type ''income'' (of_owner uid ?rows)
             \<and> sint (TransactionCount u) = int (length (of_owner uid ?rows))"
    using val by blast
qed

subsection \<open>The four sections of a successful call\<close>

lemma income_nonempty: "TransactionTypeIncome \<noteq> []" "TransactionTypeExpense \<noteq> []"
  "TransactionTypeIncome \<noteq> TransactionTypeExpense"
  "TransactionTypeIncome = ''income''" "TransactionTypeExpense = ''expense''"
  by (simp_all add: TransactionTypeIncome_def TransactionTypeExpense_def)

lemma stats_sections:
  assumes "GetAggregatedStats d f = Inr stats"
  obtains st where
    "totals_section d f \<lparr>TotalIncome = 0, TotalExpenses = 0, Balance = 0,
        ByCategoryIncome = Map.empty, ByCategoryExpense = Map.empty,
        ByUserSpending = Map.empty\<rparr> = Inr st"
    "category_section d TransactionTypeIncome ''failed to get income by category''
        ''failed to scan income by category'' f Map.empty = Inr (ByCategoryIncome stats)"
    "category_section d TransactionTypeExpense ''failed to get expense by category''
        ''failed to scan expense by category'' f Map.empty = Inr (ByCategoryExpense stats)"
    "user_section d f Map.empty = Inr (ByUserSpending stats)"
    "TotalIncome stats = TotalIncome st" "TotalExpenses stats = TotalExpenses st"
proof -
  from GetAggregatedStats_Inr [OF assms] obtain st where st:
    "totals_section d f \<lparr>TotalIncome = 0, TotalExpenses = 0, Balance = 0,
        ByCategoryIncome = Map.empty, ByCategoryExpense = Map.empty,
        ByUserSpending = Map.empty\<rparr> = Inr st"
    "category_section d TransactionTypeIncome ''failed to get income by category''
        ''failed to scan income by category'' f (ByCategoryIncome st) = Inr (ByCategoryIncome stats)"
    "category_section d TransactionTypeExpense ''failed to get expense by category''
        ''failed to scan expense by category'' f (ByCategoryExpense st) = Inr (ByCategoryExpense stats)"
    "user_section d f (ByUserSpending st) = Inr (ByUserSpending stats)"
    "TotalIncome stats = TotalIncome st" "TotalExpenses stats = TotalExpenses st"
    by blast
  note t = totals_section_Inr [OF st(1)]
  show thesis
    using that [of st] st t by simp
qed

subsection \<open>When the call returns statistics\<close>

text \<open>
  The call fails only when a sum does not fit \<^verbatim>\<open>int64\<close>: when the magnitudes of all amounts
  add up to less than \<open>2\<^sup>6\<^sup>3\<close> and there are fewer rows than that, every scan succeeds and
  statistics are returned, for every filter.
\<close>

lemma abs_amounts_filter: "abs_amounts (filter P rows) \<le> abs_amounts rows"
  unfolding abs_amounts_def by (induction rows) auto

lemma abs_sum_of_type: "\<bar>sum_of_type ty rows\<bar> \<le> abs_amounts rows"
  unfolding sum_of_type_def abs_amounts_def by (induction rows) auto

lemma abs_sum_amount: "\<bar>sum_amount rows\<bar> \<le> abs_amounts rows"
  unfolding sum_amount_def abs_amounts_def by (induction rows) auto

lemma abs_amounts_selected: "abs_amounts (selected d cs args) \<le> abs_amounts (joined d)"
  unfolding selected_def by (rule abs_amounts_filter)

lemma scan_int64_fits: "\<bar>v\<bar> < 2 ^ 63 \<Longrightarrow> scan_int64 v = Inr (word_of_int v)"
  by (auto simp: scan_int64_def)

lemma scan_category_rows_fits:
  "(\<forall>r\<in>set rows. \<bar>snd r\<bar> < 2 ^ 63) \<Longrightarrow> \<exists>m'. scan_category_rows msg rows m = Inr m'"
  by (induction msg rows m rule: scan_category_rows.induct) (auto simp: scan_int64_fits)

lemma scan_user_rows_fits:
  "(\<forall>r\<in>set rows. \<bar>fst (snd (snd r))\<bar> < 2 ^ 63 \<and> \<bar>fst (snd (snd (snd r)))\<bar> < 2 ^ 63
       \<and> \<bar>snd (snd (snd (snd r)))\<bar> < 2 ^ 63)
   \<Longrightarrow> \<exists>m'. scan_user_rows rows m = Inr m'"
  by (induction rows m rule: scan_user_rows.induct) (auto simp: scan_int64_fits)

lemma totals_section_returns:
  assumes "abs_amounts (joined d) < 2 ^ 63"
  shows "\<exists>st. totals_section d f s = Inr st"
proof -
  obtain cs args n where b: "stats_conditions f = (cs, args, n)"
    by (cases "stats_conditions f") auto
  note sel = selected_stats_conditions [OF b]
  have le: "abs_amounts (filtered d f) < 2 ^ 63"
    using abs_amounts_selected [of d cs args] assms sel(1) [of d] by simp
  have i: "\<bar>sum_of_type ''income'' (filtered d f)\<bar> < 2 ^ 63"
    and e: "\<bar>sum_of_type ''expense'' (filtered d f)\<bar> < 2 ^ 63"
    using abs_sum_of_type [of "''income''" "filtered d f"]
      abs_sum_of_type [of "''expense''" "filtered d f"] le by linarith+
  show ?thesis
    by (simp add: totals_section_def sumQuery_def b query_totals_def sel Let_def
        scan_int64_fits [OF i] scan_int64_fits [OF e])
qed

lemma category_section_returns:
  assumes "abs_amounts (joined d) < 2 ^ 63"
  shows "\<exists>m'. category_section d ty m1 m2 f m = Inr m'"
proof (cases "Type_a f = None \<or> Type_a f = Some ty")
  case False
  then show ?thesis by (auto simp: category_section_def)
next
  case True
  obtain cs args n where b: "stats_conditions f = (cs, args, n)"
    by (cases "stats_conditions f") auto
  note sel = selected_stats_conditions [OF b]
  obtain q qargs where q: "categoryQuery ty f = (q, qargs)"
    by (cases "categoryQuery ty f") auto
  have ok: "statement_ok (conds q) qargs"
  proof (cases "Type_a f")
    case None
    have "conds q = cs @ [Cond ''t.type'' OpEq (Suc (length args))]" "qargs = args @ [StrArg ty]"
      using categoryQuery_no_type [OF None b, of ty] q by simp_all
    then show ?thesis
      using statement_ok_snoc [OF sel(2), of "''t.type''" "StrArg ty" OpEq]
      by (simp add: column_type_def)
  next
    case (Some ty')
    have "conds q = cs" "qargs = args"
      using categoryQuery_with_type [OF Some b, of ty] q by simp_all
    then show ?thesis using sel(2) by simp
  qed
  let ?rows = "selected d (conds q) qargs"
  have bound: "\<bar>sum_amount (filter P ?rows)\<bar> < 2 ^ 63" for P
    using abs_sum_amount [of "filter P ?rows"] abs_amounts_filter [of P ?rows]
      abs_amounts_selected [of d "conds q" qargs] assms by linarith
  have "\<exists>m'. scan_category_rows m2
          (map (\<lambda>c. (c, sum_amount (filter (\<lambda>r. Category (fst r) = c) ?rows)))
             (remdups (map (\<lambda>r. Category (fst r)) ?rows))) m = Inr m'"
    by (rule scan_category_rows_fits) (auto simp: bound [simplified])
  then show ?thesis
    using True by (simp add: category_section_def q query_by_category_ok [OF ok])
qed

lemma user_section_returns:
  assumes "abs_amounts (joined d) < 2 ^ 63" "int (length (joined d)) < 2 ^ 63"
  shows "\<exists>m'. user_section d f m = Inr m'"
proof -
  obtain cs args n where b: "stats_conditions f = (cs, args, n)"
    by (cases "stats_conditions f") auto
  note sel = selected_stats_conditions [OF b]
  let ?rows = "filtered d f"
  have rows: "?rows = selected d cs args" using sel(1) by simp
  have le: "abs_amounts ?rows \<le> abs_amounts (joined d)"
    using abs_amounts_selected [of d cs args] by (simp add: rows)
  have bound: "\<bar>sum_of_type ty (filter P ?rows)\<bar> < 2 ^ 63" for P ty
    using abs_sum_of_type [of ty "filter P ?rows"] abs_amounts_filter [of P ?rows]
      le assms(1) by linarith
  have len: "\<bar>int (length (filter P ?rows))\<bar> < 2 ^ 63" for P
  proof -
    have "length (filter P ?rows) \<le> length (joined d)"
      unfolding filtered_def
      by (meson le_trans length_filter_le)
    then show ?thesis using assms(2) by linarith
  qed
  have "\<exists>m'. scan_user_rows
          (map (\<lambda>k. (fst k, snd k, sum_of_type ''expense'' (filter (\<lambda>r. user_key r = k) ?rows),
                    sum_of_type ''income'' (filter (\<lambda>r. user_key r = k) ?rows),
                    int (length (filter (\<lambda>r. user_key r = k) ?rows))))
             (remdups (map user_key ?rows))) m = Inr m'"
    by (rule scan_user_rows_fits) (auto simp: bound [simplified] len [simplified])
  then show ?thesis
    by (simp add: user_section_def userSpendingQuery_def b query_by_user_def sel Let_def)
qed

lemma GetAggregatedStats_returns:
  assumes "abs_amounts (joined d) < 2 ^ 63" "int (length (joined d)) < 2 ^ 63"
  shows "\<exists>stats. GetAggregatedStats d f = Inr stats"
proof -
  obtain st where st: "totals_section d f \<lparr>TotalIncome = 0, TotalExpenses = 0, Balance = 0,
                   ByCategoryIncome = Map.empty, ByCategoryExpense = Map.empty,
                   ByUserSpending = Map.empty\<rparr> = Inr st"
    using totals_section_returns [OF assms(1)] by blast
  obtain bi where bi: "category_section d TransactionTypeIncome ''failed to get income by category''
                     ''failed to scan income by category'' f (ByCategoryIncome st) = Inr bi"
    using category_section_returns [OF assms(1)] by blast
  obtain be where be: "category_section d TransactionTypeExpense ''failed to get expense by category''
                          ''failed to scan expense by category'' f (ByCategoryExpense st) = Inr be"
    using category_section_returns [OF assms(1)] by blast
  obtain bu where bu: "user_section d f (ByUserSpending st) = Inr bu"
    using user_section_returns [OF assms] by blast
  show ?thesis
    by (simp add: GetAggregatedStats_def st bi be bu)
qed

text \<open>The difference of two \<^verbatim>\<open>int64\<close> values is the difference of the integers when that fits.\<close>

lemma balance_no_overflow:
  fixes a b :: int64
  assumes "- (2 ^ 63) \<le> sint a - sint b" "sint a - sint b < 2 ^ 63"
  shows "sint (a - b) = sint a - sint b"
proof -
  have "sint (a - b) = signed_take_bit 63 (sint a - sint b)"
    by (simp add: sint_word_ariths)
  also have "\<dots> = sint a - sint b"
    using assms by (simp add: signed_take_bit_int_eq_self)
  finally show ?thesis .
qed

text \<open>
  A filter whose type points to the empty string adds no condition on the type and runs
  neither category statement: both maps stay empty while the totals are those of the
  filtered rows.
\<close>

lemma empty_type_skips_groupings:
  assumes "GetAggregatedStats d f = Inr stats" "Type_a f = Some []"
  shows "ByCategoryIncome stats = Map.empty \<and> ByCategoryExpense stats = Map.empty
       \<and> sint (TotalIncome stats) = sum_of_type ''income'' (filtered d f)
       \<and> sint (TotalExpenses stats) = sum_of_type ''expense'' (filtered d f)"
proof -
  from stats_sections [OF assms(1)] obtain st where st:
    "totals_section d f \<lparr>TotalIncome = 0, TotalExpenses = 0, Balance = 0,
        ByCategoryIncome = Map.empty, ByCategoryExpense = Map.empty,
        ByUserSpending = Map.empty\<rparr> = Inr st"
    "category_section d TransactionTypeIncome ''failed to get income by category''
        ''failed to scan income by category'' f Map.empty = Inr (ByCategoryIncome stats)"
    "category_section d TransactionTypeExpense ''failed to get expense by category''
        ''failed to scan expense by category'' f Map.empty = Inr (ByCategoryExpense stats)"
    "user_section d f Map.empty = Inr (ByUserSpending stats)"
    "TotalIncome stats = TotalIncome st" "TotalExpenses stats = TotalExpenses st"
    by blast
  have "[] \<noteq> TransactionTypeIncome" "[] \<noteq> TransactionTypeExpense"
    using income_nonempty by simp_all
  then show ?thesis
    using category_section_other_type [OF st(2) assms(2)]
      category_section_other_type [OF st(3) assms(2)]
      totals_section_values [OF st(1)] st(5,6)
    by simp
qed

subsection \<open>The program on the example ledger\<close>

lemma example_conditions:
  "stats_conditions example_filter = ([Cond ''t.user_id'' OpEq 1], [IntArg 1], 2)"
  by (simp add: stats_conditions_def example_filter_def add_condition_def)

lemma example_filter_Type: "Type_a example_filter = None"
  by (simp add: example_filter_def)

lemma example_selected:
  "selected example_db [Cond ''t.user_id'' OpEq (Suc 0)] [IntArg 1]
     = [(tx_food, user_u1), (tx_salary, user_u1)]"
  by (simp add: selected_def joined_def example_db_def matching_def column_value_def
        tx_food_def tx_salary_def user_u1_def)

lemma example_selected_income:
  "selected example_db [Cond ''t.user_id'' OpEq (Suc 0), Cond ''t.type'' OpEq 2]
       [IntArg 1, StrArg ''income'']
     = [(tx_salary, user_u1)]"
  by (simp add: selected_def joined_def example_db_def matching_def column_value_def
        tx_food_def tx_salary_def user_u1_def)

lemma example_selected_expense:
  "selected example_db [Cond ''t.user_id'' OpEq (Suc 0), Cond ''t.type'' OpEq 2]
       [IntArg 1, StrArg ''expense'']
     = [(tx_food, user_u1)]"
  by (simp add: selected_def joined_def example_db_def matching_def column_value_def
        tx_food_def tx_salary_def user_u1_def)

lemma example_totals:
  "totals_section example_db example_filter
     \<lparr>TotalIncome = 0, TotalExpenses = 0, Balance = 0, ByCategoryIncome = Map.empty,
      ByCategoryExpense = Map.empty, ByUserSpending = Map.empty\<rparr>
   = Inr \<lparr>TotalIncome = 5000, TotalExpenses = 1000, Balance = 4000,
          ByCategoryIncome = Map.empty, ByCategoryExpense = Map.empty,
          ByUserSpending = Map.empty\<rparr>"
  by (simp add: totals_section_def sumQuery_def example_conditions query_totals_def
        statement_ok_def column_type_def example_selected sum_of_type_def tx_food_def
        tx_salary_def scan_int64_def Let_def)

lemma example_income:
  "category_section example_db TransactionTypeIncome m1 m2 example_filter Map.empty
     = Inr [''salary'' \<mapsto> 5000]"
  by (simp add: category_section_def categoryQuery_def example_conditions
        query_by_category_def statement_ok_def column_type_def TransactionTypeIncome_def
        example_selected_income sum_amount_def tx_salary_def scan_int64_def
        example_filter_Type Let_def whereClause_of_def)

lemma example_expense:
  "category_section example_db TransactionTypeExpense m1 m2 example_filter Map.empty
     = Inr [''food'' \<mapsto> 1000]"
  by (simp add: category_section_def categoryQuery_def example_conditions
        query_by_category_def statement_ok_def column_type_def TransactionTypeExpense_def
        example_selected_expense sum_amount_def tx_food_def scan_int64_def
        example_filter_Type Let_def whereClause_of_def)

lemma example_users:
  "user_section example_db example_filter Map.empty
     = Inr [1 \<mapsto> \<lparr>UserID_s = 1, UserPhone = ''555'', TotalSpent = 1000,
                    TotalIncome_s = 5000, TransactionCount = 2\<rparr>]"
  by (simp add: user_section_def userSpendingQuery_def example_conditions query_by_user_def
        statement_ok_def column_type_def example_selected sum_of_type_def tx_food_def
        tx_salary_def user_u1_def scan_int64_def Let_def user_key_def)

lemma example_run: "GetAggregatedStats example_db example_filter = Inr example_stats"
  by (simp add: GetAggregatedStats_def example_totals example_income example_expense
        example_users example_stats_def)

lemma example_income_conditions:
  "stats_conditions example_filter_income
     = ([Cond ''t.user_id'' OpEq 1, Cond ''t.type'' OpEq 2], [IntArg 1, StrArg ''income''], 3)"
  by (simp add: stats_conditions_def example_filter_income_def add_condition_def)

lemma example_filter_income_Type: "Type_a example_filter_income = Some ''income''"
  by (simp add: example_filter_income_def)

lemma example_income_totals:
  "totals_section example_db example_filter_income
     \<lparr>TotalIncome = 0, TotalExpenses = 0, Balance = 0, ByCategoryIncome = Map.empty,
      ByCategoryExpense = Map.empty, ByUserSpending = Map.empty\<rparr>
   = Inr \<lparr>TotalIncome = 5000, TotalExpenses = 0, Balance = 5000,
          ByCategoryIncome = Map.empty, ByCategoryExpense = Map.empty,
          ByUserSpending = Map.empty\<rparr>"
  by (simp add: totals_section_def sumQuery_def example_income_conditions query_totals_def
        statement_ok_def column_type_def example_selected_income sum_of_type_def
        tx_salary_def scan_int64_def Let_def)

lemma example_income_income:
  "category_section example_db TransactionTypeIncome m1 m2 example_filter_income Map.empty
     = Inr [''salary'' \<mapsto> 5000]"
  by (simp add: category_section_def categoryQuery_def example_income_conditions
        query_by_category_def statement_ok_def column_type_def TransactionTypeIncome_def
        example_selected_income sum_amount_def tx_salary_def scan_int64_def
        example_filter_income_Type Let_def whereClause_of_def)

lemma example_income_expense:
  "category_section example_db TransactionTypeExpense m1 m2 example_filter_income Map.empty
     = Inr Map.empty"
  by (simp add: category_section_def TransactionTypeExpense_def example_filter_income_Type)

lemma example_income_users:
  "user_section example_db example_filter_income Map.empty
     = Inr [1 \<mapsto> \<lparr>UserID_s = 1, UserPhone = ''555'', TotalSpent = 0,
                    TotalIncome_s = 5000, TransactionCount = 1\<rparr>]"
  by (simp add: user_section_def userSpendingQuery_def example_income_conditions
        query_by_user_def statement_ok_def column_type_def example_selected_income
        sum_of_type_def tx_salary_def user_u1_def scan_int64_def Let_def user_key_def)

lemma example_income_run:
  "GetAggregatedStats example_db example_filter_income = Inr example_stats_income"
  by (simp add: GetAggregatedStats_def example_income_totals example_income_income
        example_income_expense example_income_users example_stats_income_def)

lemma example_filtered:
  "filtered example_db example_filter = [(tx_food, user_u1), (tx_salary, user_u1)]"
  using selected_stats_conditions(1) [OF example_conditions, of example_db] example_selected
  by simp

lemma example_income_filtered:
  "filtered example_db example_filter_income = [(tx_salary, user_u1)]"
  using selected_stats_conditions(1) [OF example_income_conditions, of example_db]
    example_selected_income
  by simp

lemma example_db_keys: "distinct (map ID_u (users example_db))"
  by (simp add: example_db_def)

subsection \<open>The balance\<close>

text \<open>
  Claim C1. Whenever \<^verbatim>\<open>GetAggregatedStats\<close> returns statistics, their balance is the
  total income minus the total expenses, in the arithmetic of \<^verbatim>\<open>int64\<close>: the field is
  assigned from the two totals after they are scanned and is not read from the store.
  When the difference of the two totals fits \<^verbatim>\<open>int64\<close>, the balance is that difference as
  an integer.
\<close>

theorem balance_identity:
  assumes "GetAggregatedStats d f = Inr stats"
  shows "Balance stats = TotalIncome stats - TotalExpenses stats
       \<and> (- (2 ^ 63) \<le> sint (TotalIncome stats) - sint (TotalExpenses stats)
            \<and> sint (TotalIncome stats) - sint (TotalExpenses stats) < 2 ^ 63
          \<longrightarrow> sint (Balance stats) = sint (TotalIncome stats) - sint (TotalExpenses stats))"
proof -
  have eq: "Balance stats = TotalIncome stats - TotalExpenses stats"
    using assms GetAggregatedStats_Inr totals_section_Inr(1) by metis
  show ?thesis
    using eq balance_no_overflow [of "TotalIncome stats" "TotalExpenses stats"] by simp
qed

theorem balance_identity_witness:
  "GetAggregatedStats example_db example_filter = Inr example_stats
   \<and> Balance example_stats = TotalIncome example_stats - TotalExpenses example_stats
   \<and> sint (Balance example_stats)
       = sint (TotalIncome example_stats) - sint (TotalExpenses example_stats)
   \<and> sint (Balance example_stats) = 4000"
proof -
  have fits: "- (2 ^ 63) \<le> sint (TotalIncome example_stats) - sint (TotalExpenses example_stats)
            \<and> sint (TotalIncome example_stats) - sint (TotalExpenses example_stats) < 2 ^ 63"
    by (simp add: example_stats_def)
  have bal: "sint (Balance example_stats) = 4000"
    by (simp add: example_stats_def)
  show ?thesis
    using balance_identity [OF example_run] example_run fits bal by simp
qed

subsection \<open>Category sums and totals\<close>

text \<open>
  Claim C5. Whenever \<^verbatim>\<open>GetAggregatedStats\<close> returns statistics for a filter whose type
  is absent or is income, the values of \<^verbatim>\<open>ByCategoryIncome\<close> add up to \<^verbatim>\<open>TotalIncome\<close>;
  for a filter whose type is absent or is expense, the values of \<^verbatim>\<open>ByCategoryExpense\<close>
  add up to \<^verbatim>\<open>TotalExpenses\<close>. The sums are taken over the integers the fields hold.
\<close>

theorem category_sums_equal_totals:
  assumes "GetAggregatedStats d f = Inr stats"
  shows "(Type_a f = None \<or> Type_a f = Some TransactionTypeIncome \<longrightarrow>
            map_sum sint (ByCategoryIncome stats) = sint (TotalIncome stats))
       \<and> (Type_a f = None \<or> Type_a f = Some TransactionTypeExpense \<longrightarrow>
            map_sum sint (ByCategoryExpense stats) = sint (TotalExpenses stats))"
proof -
  from stats_sections [OF assms] obtain st where st:
    "totals_section d f \<lparr>TotalIncome = 0, TotalExpenses = 0, Balance = 0,
        ByCategoryIncome = Map.empty, ByCategoryExpense = Map.empty,
        ByUserSpending = Map.empty\<rparr> = Inr st"
    "category_section d TransactionTypeIncome ''failed to get income by category''
        ''failed to scan income by category'' f Map.empty = Inr (ByCategoryIncome stats)"
    "category_section d TransactionTypeExpense ''failed to get expense by category''
        ''failed to scan expense by category'' f Map.empty = Inr (ByCategoryExpense stats)"
    "user_section d f Map.empty = Inr (ByUserSpending stats)"
    "TotalIncome stats = TotalIncome st" "TotalExpenses stats = TotalExpenses st"
    by blast
  note tv = totals_section_values [OF st(1)]
  have inc: "map_sum sint (ByCategoryIncome stats) = sint (TotalIncome stats)"
    if "Type_a f = None \<or> Type_a f = Some TransactionTypeIncome"
    using that category_section_no_type(2) [OF st(2)]
      category_section_same_type(2) [OF st(2) _ income_nonempty(1)] tv(1) st(5)
    by (auto simp: income_nonempty(4))
  have exp: "map_sum sint (ByCategoryExpense stats) = sint (TotalExpenses stats)"
    if "Type_a f = None \<or> Type_a f = Some TransactionTypeExpense"
    using that category_section_no_type(2) [OF st(3)]
      category_section_same_type(2) [OF st(3) _ income_nonempty(2)] tv(2) st(6)
    by (auto simp: income_nonempty(5))
  show ?thesis using inc exp by blast
qed

theorem category_sums_equal_totals_witness:
  "map_sum sint (ByCategoryIncome example_stats) = sint (TotalIncome example_stats)
   \<and> map_sum sint (ByCategoryExpense example_stats) = sint (TotalExpenses example_stats)
   \<and> map_sum sint (ByCategoryIncome example_stats_income) = sint (TotalIncome example_stats_income)
   \<and> sint (TotalIncome example_stats) = 5000 \<and> sint (TotalExpenses example_stats) = 1000
   \<and> sint (TotalIncome example_stats_income) = 5000"
  using category_sums_equal_totals [OF example_run]
    category_sums_equal_totals [OF example_income_run]
  by (simp add: example_filter_Type example_filter_income_Type TransactionTypeIncome_def
        example_stats_def example_stats_income_def)

subsection \<open>Which category groupings are computed\<close>

text \<open>
  Claim C2. For a filter whose type is income the expense grouping is the empty map and
  the income grouping holds, per category of the filtered rows, the sum of their
  amounts; symmetrically for expense. For a filter with no type both groupings are
  computed, each over the filtered rows further restricted to its type, so the
  restriction is added to the other constraints of the filter.
\<close>

theorem category_breakdown_policy:
  assumes "GetAggregatedStats d f = Inr stats"
  shows "(Type_a f = Some TransactionTypeIncome \<longrightarrow>
            ByCategoryExpense stats = Map.empty
          \<and> (\<lambda>c. map_option sint (ByCategoryIncome stats c)) = category_sums (filtered d f))
       \<and> (Type_a f = Some TransactionTypeExpense \<longrightarrow>
            ByCategoryIncome stats = Map.empty
          \<and> (\<lambda>c. map_option sint (ByCategoryExpense stats c)) = category_sums (filtered d f))
       \<and> (Type_a f = None \<longrightarrow>
            (\<lambda>c. map_option sint (ByCategoryIncome stats c))
              = category_sums (of_type TransactionTypeIncome (filtered d f))
          \<and> (\<lambda>c. map_option sint (ByCategoryExpense stats c))
              = category_sums (of_type TransactionTypeExpense (filtered d f)))"
proof -
  from stats_sections [OF assms] obtain st where st:
    "totals_section d f \<lparr>TotalIncome = 0, TotalExpenses = 0, Balance = 0,
        ByCategoryIncome = Map.empty, ByCategoryExpense = Map.empty,
        ByUserSpending = Map.empty\<rparr> = Inr st"
    "category_section d TransactionTypeIncome ''failed to get income by category''
        ''failed to scan income by category'' f Map.empty = Inr (ByCategoryIncome stats)"
    "category_section d TransactionTypeExpense ''failed to get expense by category''
        ''failed to scan expense by category'' f Map.empty = Inr (ByCategoryExpense stats)"
    "user_section d f Map.empty = Inr (ByUserSpending stats)"
    "TotalIncome stats = TotalIncome st" "TotalExpenses stats = TotalExpenses st"
    by blast
  have a: "ByCategoryExpense stats = Map.empty
          \<and> (\<lambda>c. map_option sint (ByCategoryIncome stats c)) = category_sums (filtered d f)"
    if t: "Type_a f = Some TransactionTypeIncome"
    using category_section_other_type [OF st(3) t income_nonempty(3)]
      category_section_same_type(1) [OF st(2) t income_nonempty(1)] by simp
  have b: "ByCategoryIncome stats = Map.empty
          \<and> (\<lambda>c. map_option sint (ByCategoryExpense stats c)) = category_sums (filtered d f)"
    if t: "Type_a f = Some TransactionTypeExpense"
    using category_section_other_type [OF st(2) t income_nonempty(3) [symmetric]]
      category_section_same_type(1) [OF st(3) t income_nonempty(2)] by simp
  have c: "(\<lambda>c. map_option sint (ByCategoryIncome stats c))
              = category_sums (of_type TransactionTypeIncome (filtered d f))
          \<and> (\<lambda>c. map_option sint (ByCategoryExpense stats c))
              = category_sums (of_type TransactionTypeExpense (filtered d f))"
    if t: "Type_a f = None"
    using category_section_no_type(1) [OF st(2) t] category_section_no_type(1) [OF st(3) t]
    by simp
  show ?thesis using a b c by blast
qed

theorem category_breakdown_policy_witness:
  "ByCategoryExpense example_stats_income = Map.empty
   \<and> (\<lambda>c. map_option sint (ByCategoryIncome example_stats_income c))
       = category_sums [(tx_salary, user_u1)]
   \<and> ByCategoryIncome example_stats_income ''salary'' = Some 5000
   \<and> (\<lambda>c. map_option sint (ByCategoryIncome example_stats c))
       = category_sums (of_type TransactionTypeIncome [(tx_food, user_u1), (tx_salary, user_u1)])
   \<and> (\<lambda>c. map_option sint (ByCategoryExpense example_stats c))
       = category_sums (of_type TransactionTypeExpense [(tx_food, user_u1), (tx_salary, user_u1)])
   \<and> ByCategoryIncome example_stats ''salary'' = Some 5000
   \<and> ByCategoryExpense example_stats ''food'' = Some 1000"
  using category_breakdown_policy [OF example_run]
    category_breakdown_policy [OF example_income_run]
  by (simp add: example_filter_Type example_filter_income_Type TransactionTypeIncome_def
        TransactionTypeExpense_def example_filtered example_income_filtered
        example_stats_def example_stats_income_def)

subsection \<open>The per-owner breakdown\<close>

text \<open>
  Claim C6. On a store whose user ids are unique (the primary key of \<^verbatim>\<open>users\<close>), the
  per-owner \<^verbatim>\<open>TotalSpent\<close> values add up to \<^verbatim>\<open>TotalExpenses\<close> and the per-owner
  \<^verbatim>\<open>TotalIncome\<close> values to \<^verbatim>\<open>TotalIncome\<close>; the owners listed are exactly the owners
  of the filtered rows; each owner's figures are computed over the same filtered rows
  as the totals, by a statement with the conditions and arguments of the totals
  statement.
\<close>

theorem per_owner_breakdown:
  assumes "distinct (map ID_u (users d))" and "GetAggregatedStats d f = Inr stats"
  shows "map_sum (\<lambda>u. sint (TotalSpent u)) (ByUserSpending stats) = sint (TotalExpenses stats)
       \<and> map_sum (\<lambda>u. sint (TotalIncome_s u)) (ByUserSpending stats) = sint (TotalIncome stats)
       \<and> dom (ByUserSpending stats) = (\<lambda>r. UserID (fst r)) ` set (filtered d f)
       \<and> (\<forall>uid\<in>dom (ByUserSpending stats). \<exists>u. ByUserSpending stats uid = Some u
             \<and> UserID_s u = uid
             \<and> sint (TotalSpent u) = sum_of_type ''expense'' (of_owner uid (filtered d f))
             \<and> sint (TotalIncome_s u) = sum_of_type ''income'' (of_owner uid (filtered d f))
             \<and> sint (TransactionCount u) = int (length (of_owner uid (filtered d f))))
       \<and> sint (TotalExpenses stats) = sum_of_type ''expense'' (filtered d f)
       \<and> sint (TotalIncome stats) = sum_of_type ''income'' (filtered d f)
       \<and> conds (fst (userSpendingQuery f)) = conds (fst (sumQuery f))
       \<and> snd (userSpendingQuery f) = snd (sumQuery f)"
proof -
  from stats_sections [OF assms(2)] obtain st where st:
    "totals_section d f \<lparr>TotalIncome = 0, TotalExpenses = 0, Balance = 0,
        ByCategoryIncome = Map.empty, ByCategoryExpense = Map.empty,
        ByUserSpending = Map.empty\<rparr> = Inr st"
    "category_section d TransactionTypeIncome ''failed to get income by category''
        ''failed to scan income by category'' f Map.empty = Inr (ByCategoryIncome stats)"
    "category_section d TransactionTypeExpense ''failed to get expense by category''
        ''failed to scan expense by category'' f Map.empty = Inr (ByCategoryExpense stats)"
    "user_section d f Map.empty = Inr (ByUserSpending stats)"
    "TotalIncome stats = TotalIncome st" "TotalExpenses stats = TotalExpenses st"
    by blast
  note tv = totals_section_values [OF st(1)]
  note us = user_section_values [OF assms(1) st(4)]
  have q: "conds (fst (userSpendingQuery f)) = conds (fst (sumQuery f))
       \<and> snd (userSpendingQuery f) = snd (sumQuery f)"
    by (simp add: userSpendingQuery_def sumQuery_def split: prod.splits)
  show ?thesis
    using tv us(1,2,3) us(4) st(5,6) q by auto
qed

theorem per_owner_breakdown_witness:
  "distinct (map ID_u (users example_db))
   \<and> map_sum (\<lambda>u. sint (TotalSpent u)) (ByUserSpending example_stats) = sint (TotalExpenses example_stats)
   \<and> map_sum (\<lambda>u. sint (TotalIncome_s u)) (ByUserSpending example_stats) = sint (TotalIncome example_stats)
   \<and> dom (ByUserSpending example_stats) = {1}
   \<and> sint (TotalExpenses example_stats) = 1000"
  using per_owner_breakdown [OF example_db_keys example_run] example_db_keys
  by (simp add: example_filtered example_stats_def tx_food_def tx_salary_def)

section \<open>Properties of the query text\<close>

subsection \<open>The builders produce the clauses of the filter\<close>

lemma number_from_snoc:
  "number_from n (cl @ [(col, op, v)]) = number_from n cl @ [Cond col op (n + length cl)]"
  by (induction n cl rule: number_from.induct) auto










lemma strings_Join_snoc:
  "strings_Join (xs @ [x]) sep = (if xs = [] then x else strings_Join xs sep @ sep @ x)"
  by (induction xs sep rule: strings_Join.induct) auto

lemma whereClause_of_empty: "(whereClause_of cs = []) = (cs = [])"
  by (simp add: whereClause_of_def)

lemma whereClause_of_snoc:
  "whereClause_of (cs @ [c])
     = (if whereClause_of cs = [] then '' WHERE '' @ cond_sql c
        else whereClause_of cs @ '' AND '' @ cond_sql c)"
  by (simp add: whereClause_of_def strings_Join_snoc)

lemma statement_texts:
  shows "sql (fst (sumQuery f))
     = ''\<newline>        SELECT \<newline>            COALESCE(SUM(CASE WHEN t.type = 'income' THEN t.amount ELSE 0 END), 0) as total_income,\<newline>            COALESCE(SUM(CASE WHEN t.type = 'expense' THEN t.amount ELSE 0 END), 0) as total_expenses\<newline>        ''
       @ baseQuery @ '' '' @ whereClause_of (conds (fst (sumQuery f)))"
    and "sql (fst (categoryQuery ty f))
     = ''SELECT t.category, COALESCE(SUM(t.amount), 0) '' @ baseQuery @ '' ''
       @ whereClause_of (conds (fst (categoryQuery ty f))) @ '' GROUP BY t.category''"
    and "sql (fst (userSpendingQuery f))
     = ''\<newline>        SELECT \<newline>            t.user_id, \<newline>            u.phone,\<newline>            COALESCE(SUM(CASE WHEN t.type = 'expense' THEN t.amount ELSE 0 END), 0) as total_spent,\<newline>            COALESCE(SUM(CASE WHEN t.type = 'income' THEN t.amount ELSE 0 END), 0) as total_income,\<newline>            COUNT(t.id) as transaction_count\<newline>        ''
       @ baseQuery @ '' '' @ whereClause_of (conds (fst (userSpendingQuery f)))
       @ '' GROUP BY t.user_id, u.phone''"
    and "sql (fst (FindAll_query f))
     = ''SELECT t.id, t.user_id, t.amount, t.type, t.category, t.description, t.transaction_date, t.receipt_path, t.created_at, t.updated_at \<newline>                               FROM transactions t''
       @ whereClause_of (conds (fst (FindAll_query f)))
       @ '' ORDER BY t.transaction_date DESC, t.created_at DESC''"
proof -
  show "sql (fst (sumQuery f))
     = ''\<newline>        SELECT \<newline>            COALESCE(SUM(CASE WHEN t.type = 'income' THEN t.amount ELSE 0 END), 0) as total_income,\<newline>            COALESCE(SUM(CASE WHEN t.type = 'expense' THEN t.amount ELSE 0 END), 0) as total_expenses\<newline>        ''
       @ baseQuery @ '' '' @ whereClause_of (conds (fst (sumQuery f)))"
    by (simp add: sumQuery_def split: prod.splits)
  show "sql (fst (categoryQuery ty f))
     = ''SELECT t.category, COALESCE(SUM(t.amount), 0) '' @ baseQuery @ '' ''
       @ whereClause_of (conds (fst (categoryQuery ty f))) @ '' GROUP BY t.category''"
    by (simp add: categoryQuery_def Let_def whereClause_of_snoc split: prod.splits)
  show "sql (fst (userSpendingQuery f))
     = ''\<newline>        SELECT \<newline>            t.user_id, \<newline>            u.phone,\<newline>            COALESCE(SUM(CASE WHEN t.type = 'expense' THEN t.amount ELSE 0 END), 0) as total_spent,\<newline>            COALESCE(SUM(CASE WHEN t.type = 'income' THEN t.amount ELSE 0 END), 0) as total_income,\<newline>            COUNT(t.id) as transaction_count\<newline>        ''
       @ baseQuery @ '' '' @ whereClause_of (conds (fst (userSpendingQuery f)))
       @ '' GROUP BY t.user_id, u.phone''"
    by (simp add: userSpendingQuery_def split: prod.splits)
  show "sql (fst (FindAll_query f))
     = ''SELECT t.id, t.user_id, t.amount, t.type, t.category, t.description, t.transaction_date, t.receipt_path, t.created_at, t.updated_at \<newline>                               FROM transactions t''
       @ whereClause_of (conds (fst (FindAll_query f)))
       @ '' ORDER BY t.transaction_date DESC, t.created_at DESC''"
    by (simp add: FindAll_query_def Let_def whereClause_of_def split: prod.splits)
qed


lemma decimal_1: "decimal (Suc 0) = ''1''"
  by (simp add: digit_char_def)

subsection \<open>The text does not depend on the values\<close>



section \<open>Properties of the service\<close>

subsection \<open>The service on the example ledger\<close>

lemma example_find_1: "repo_FindByID example_repo example_db 1 = Inr (Some tx_food)"
  by (simp add: example_repo_def transactionRepository_def FindByID_def example_db_def
      tx_food_def tx_salary_def)

lemma example_find_7: "repo_FindByID example_repo example_db 7 = Inr None"
  by (simp add: example_repo_def transactionRepository_def FindByID_def example_db_def
      tx_food_def tx_salary_def)

lemma tx_food_owner: "UserID tx_food = 1"
  by (simp add: tx_food_def)

lemma lower_exe: "strings_ToLower (unix_Ext ''tool.exe'') = ''.exe''"
  by (simp add: strings_ToLower_def unix_Ext_def lower_char_def byte_def)

lemma lower_JPG: "strings_ToLower (unix_Ext ''receipt.JPG'') = ''.jpg''"
  by (simp add: strings_ToLower_def unix_Ext_def lower_char_def byte_def)

lemma example_FindAll: "repo_FindAll example_repo example_db example_filter = Inr [tx_salary, tx_food]"
  by (simp add: example_repo_def transactionRepository_def FindAll_def FindAll_query_def
      FindAll_conditions_def add_condition_def query_transactions_def statement_ok_def
      column_type_def matching_def column_value_def example_filter_def example_db_def
      tx_food_def tx_salary_def jan5_def jan10_def time_Date_def UnixNano_def
      days_from_civil_def Let_def less_eq_prod_def)

lemma decimal_small: "n < 10 \<Longrightarrow> decimal n = [digit_char n]"
  by simp

lemma example_record_salary:
  "csv_line (csv_record tx_salary)
     = ''2,1,5000,income,salary,,2024-01-10T12:00:00Z,2024-01-10T12:00:00Z,\<newline>''"
  by (simp add: csv_line_def csv_record_def tx_salary_def jan10_def time_Date_def
      Format_RFC3339_def zone_RFC3339_def appendInt_def Itoa_def FormatInt_def digit_char_def
      csv_field_def fieldNeedsQuotes_def first_rune_is_space_def byte_def Let_def)

lemma example_record_food:
  "csv_line (csv_record tx_food)
     = ''1,1,1000,expense,food,,2024-01-05T12:00:00Z,2024-01-05T12:00:00Z,\<newline>''"
  by (simp add: csv_line_def csv_record_def tx_food_def jan5_def time_Date_def
      Format_RFC3339_def zone_RFC3339_def appendInt_def Itoa_def FormatInt_def digit_char_def
      csv_field_def fieldNeedsQuotes_def first_rune_is_space_def byte_def Let_def)

lemma example_jan5_range:
  "GetUserTransactions example_repo example_db 1 filter_jan5_range = Inr [tx_food]"
  by (simp add: GetUserTransactions_def adjust_dates_def filter_jan5_range_def
      example_repo_def transactionRepository_def FindByUser_def FindByUser_query_def
      FindByUser_conditions_def add_condition_def add_last_condition_def
      query_transactions_def statement_ok_def
      column_type_def matching_def column_value_def example_db_def
      tx_food_def tx_salary_def jan5_def jan10_def time_Date_def UnixNano_def
      days_from_civil_def Let_def less_eq_prod_def)

lemma example_find_receipt:
  "repo_FindByID example_repo example_db_receipt 1 = Inr (Some tx_food_receipt)"
  by (simp add: example_repo_def transactionRepository_def FindByID_def example_db_receipt_def
      tx_food_receipt_def tx_food_def tx_salary_def)

lemma tx_food_receipt_owner: "UserID tx_food_receipt = 1"
  by (simp add: tx_food_receipt_def tx_food_def)

lemma tx_food_receipt_path:
  "ReceiptPath tx_food_receipt = Some ''uploads/transactions/1/receipt.JPG''"
  by (simp add: tx_food_receipt_def)

text \<open>The repository of the program deletes the record that it finds.\<close>

lemma Delete_found:
  assumes "FindByID d tid = Inr (Some t)"
  shows "Delete d tid
           = (None, d\<lparr>transactions := filter (\<lambda>row. ID row \<noteq> tid) (transactions d)\<rparr>)"
proof -
  have "filter (\<lambda>t. ID t = tid) (transactions d) \<noteq> []"
    using assms by (auto simp: FindByID_def split: list.splits)
  then have "list_ex (\<lambda>row. ID row = tid) (transactions d)"
    by (induction "transactions d") (auto simp: list_ex_iff filter_empty_conv)
  then show ?thesis by (simp add: Delete_def)
qed

lemma example_delete:
  "repo_Delete example_repo example_db 1
     = (None, \<lparr>transactions = [tx_salary], users = [user_u1]\<rparr>)"
proof -
  have "FindByID example_db 1 = Inr (Some tx_food)"
    using example_find_1 by (simp add: example_repo_def transactionRepository_def)
  from Delete_found [OF this] show ?thesis
    by (simp add: example_repo_def transactionRepository_def example_db_def
        tx_food_def tx_salary_def)
qed

lemma example_update:
  "repo_Update example_repo example_db (apply_updates no_changes jan10 tx_food)
     = (Inr jan10,
        \<lparr>transactions = [tx_food\<lparr>UpdatedAt := jan10\<rparr>, tx_salary], users = [user_u1]\<rparr>)"
  by (simp add: example_repo_def transactionRepository_def Update_def apply_updates_def
      no_changes_def example_db_def tx_food_def tx_salary_def)

lemma example_upload_dir: "unix_Join [''uploads'', ''transactions'', Itoa 1] = ''uploads/transactions/1''"
  by (simp add: unix_Join_def unix_Clean_def Itoa_def digit_char_def Let_def)

lemma example_upload_path:
  "unix_Join [''uploads/transactions/1'', unix_Base ''receipt.JPG'']
     = ''uploads/transactions/1/receipt.JPG''"
  by (simp add: unix_Join_def unix_Clean_def unix_Base_def Let_def)

lemma example_store:
  "store_receipt example_repo unix_os example_db Map.empty 1 tx_food receipt_jpg ''uploads''
     = (Inr (tx_food\<lparr>ReceiptPath := Some ''uploads/transactions/1/receipt.JPG''\<rparr>),
        example_db_receipt,
        [''uploads/transactions/1/receipt.JPG'' \<mapsto> ''bytes''])"
proof -
  have upd: "repo_UpdateReceiptPath example_repo example_db 1 ''uploads/transactions/1/receipt.JPG''
               = (None, example_db_receipt)"
    by (simp add: example_repo_def transactionRepository_def UpdateReceiptPath_def
        example_db_def example_db_receipt_def tx_food_receipt_def tx_food_def tx_salary_def)
  have os: "filepath_Join unix_os = unix_Join" "filepath_Base unix_os = unix_Base"
    "filepath_ToSlash unix_os = (\<lambda>p. p)"
    "os_MkdirAll unix_os = (\<lambda>fs p. (None, fs))"
    "os_Create unix_os = (\<lambda>fs p. (None, fs(p \<mapsto> [])))"
    "io_Copy unix_os = (\<lambda>fs p src. (None, fs(p \<mapsto> src)))"
    by (simp_all add: unix_os_def)
  have fh: "Filename receipt_jpg = ''receipt.JPG''" "Open_result receipt_jpg = Inr ''bytes''"
    by (simp_all add: receipt_jpg_def)
  show ?thesis
    unfolding store_receipt_def Let_def os fh example_upload_dir example_upload_path
    by (simp add: upd)
qed

lemma receipt_jpg_passes:
  "Size receipt_jpg \<le> MaxFileSize
   \<and> allowedExts (strings_ToLower (filepath_Ext unix_os (Filename receipt_jpg)))"
  using lower_JPG by (simp add: receipt_jpg_def MaxFileSize_def allowedExts_def unix_os_def)

lemma example_receipt_names:
  "filepath_FromSlash unix_os ''uploads/transactions/1/receipt.JPG''
     = ''uploads/transactions/1/receipt.JPG''
   \<and> filepath_Base unix_os ''uploads/transactions/1/receipt.JPG'' = ''receipt.JPG''"
  by (simp add: unix_os_def unix_Base_def Let_def)

subsection \<open>Not found and forbidden\<close>

text \<open>
  Claim C8. \<^verbatim>\<open>GetTransactionByID\<close> returns the not-found error whenever the repository
  finds no record for the id, whoever the caller is, and the forbidden error when the
  record exists and the caller is neither an administrator nor its owner. The two are
  different errors, neither of which \<^verbatim>\<open>errors.Is\<close> the other, and the record is looked
  for, and its absence reported, before the owner is compared.
\<close>

theorem not_found_before_forbidden:
  "(repo_FindByID repo s tid = Inr None \<longrightarrow>
      GetTransactionByID repo s tid uid role = Inl ErrTransactionNotFound)
   \<and> (repo_FindByID repo s tid = Inr (Some t) \<and> role \<noteq> RoleAdmin \<and> UserID t \<noteq> uid \<longrightarrow>
      GetTransactionByID repo s tid uid role = Inl ErrForbidden)
   \<and> ErrForbidden \<noteq> ErrTransactionNotFound
   \<and> \<not> errors_Is ErrForbidden ErrTransactionNotFound
   \<and> \<not> errors_Is ErrTransactionNotFound ErrForbidden"
  by (simp add: GetTransactionByID_def)

theorem not_found_before_forbidden_witness:
  "GetTransactionByID example_repo example_db 7 2 RoleUser = Inl ErrTransactionNotFound
   \<and> GetTransactionByID example_repo example_db 7 1 RoleAdmin = Inl ErrTransactionNotFound
   \<and> GetTransactionByID example_repo example_db 1 2 RoleUser = Inl ErrForbidden"
  using not_found_before_forbidden [of example_repo example_db 7 2 RoleUser tx_food]
    not_found_before_forbidden [of example_repo example_db 7 1 RoleAdmin tx_food]
    not_found_before_forbidden [of example_repo example_db 1 2 RoleUser tx_food]
    example_find_1 example_find_7
  by (simp add: tx_food_owner RoleUser_def RoleAdmin_def)

subsection \<open>Who may act on a record\<close>

lemma store_receipt_not_sentinel:
  "fst (store_receipt repo os s fs tid t fh base) \<noteq> Inl ErrForbidden"
  unfolding store_receipt_def Let_def
  by (auto split: prod.splits option.splits sum.splits)

text \<open>
  Claim C4, as amended. For a record that the repository finds, a caller is let through
  by get by id, delete and receipt retrieval when the caller is an administrator or the
  owner of the record, and by update and receipt upload, which take no role, when the
  caller is the owner. A caller who is let through gets what the operation does past the
  check: get by id returns the record; delete returns the outcome of the repository's
  delete, with the store it leaves; receipt retrieval returns the path and the file name
  of the record's receipt, or that there is none, the same for an administrator as for
  the owner; update returns the outcome of the repository's update of the edited record;
  upload of a file that passes the two file checks returns the outcome of storing it.
  Every other caller gets the forbidden error, with the store and the files unchanged,
  and nobody else gets it: for update and upload that includes the administrators.
\<close>

theorem access_policy_by_operation:
  assumes "repo_FindByID repo s tid = Inr (Some t)"
  shows "(role = RoleAdmin \<or> UserID t = uid \<longrightarrow>
            GetTransactionByID repo s tid uid role = Inr t)
       \<and> (role \<noteq> RoleAdmin \<and> UserID t \<noteq> uid \<longrightarrow>
            GetTransactionByID repo s tid uid role = Inl ErrForbidden)
       \<and> (role = RoleAdmin \<or> UserID t = uid \<longrightarrow>
            DeleteTransaction repo s tid uid role
              = (case repo_Delete repo s tid of
                   (Some err, s') \<Rightarrow> (Some (Wrapf ''failed to delete transaction in repo'' err), s')
                 | (None, s') \<Rightarrow> (None, s')))
       \<and> (role \<noteq> RoleAdmin \<and> UserID t \<noteq> uid \<longrightarrow>
            DeleteTransaction repo s tid uid role = (Some ErrForbidden, s))
       \<and> (role = RoleAdmin \<or> UserID t = uid \<longrightarrow>
            GetReceiptPath repo os s tid uid role
              = (case ReceiptPath t of
                   None \<Rightarrow> Inl (Errorf ''receipt not found for this transaction'')
                 | Some p \<Rightarrow>
                     if p = [] then Inl (Errorf ''receipt not found for this transaction'')
                     else Inr (filepath_FromSlash os p, filepath_Base os (filepath_FromSlash os p)))
            \<and> GetReceiptPath repo os s tid uid role
              = GetReceiptPath repo os s tid (UserID t) role')
       \<and> (role \<noteq> RoleAdmin \<and> UserID t \<noteq> uid \<longrightarrow>
            GetReceiptPath repo os s tid uid role = Inl ErrForbidden)
       \<and> (UserID t = uid \<longrightarrow>
            UpdateTransaction repo s now tid uid req
              = (case repo_Update repo s (apply_updates req now t) of
                   (Inl err, s') \<Rightarrow> (Inl (Wrapf ''failed to update transaction in repo'' err), s')
                 | (Inr updatedAt, s') \<Rightarrow>
                     (Inr ((apply_updates req now t)\<lparr>UpdatedAt := updatedAt\<rparr>), s')))
       \<and> (UserID t \<noteq> uid \<longrightarrow>
            UpdateTransaction repo s now tid uid req = (Inl ErrForbidden, s))
       \<and> (UserID t = uid \<and> Size fh \<le> MaxFileSize
            \<and> allowedExts (strings_ToLower (filepath_Ext os (Filename fh))) \<longrightarrow>
            UploadReceipt repo os s fs tid uid fh base = store_receipt repo os s fs tid t fh base)
       \<and> (UserID t \<noteq> uid \<longrightarrow>
            UploadReceipt repo os s fs tid uid fh base = (Inl ErrForbidden, s, fs))
       \<and> (GetTransactionByID repo s tid uid role = Inl ErrForbidden)
           = (role \<noteq> RoleAdmin \<and> UserID t \<noteq> uid)
       \<and> (fst (DeleteTransaction repo s tid uid role) = Some ErrForbidden)
           = (role \<noteq> RoleAdmin \<and> UserID t \<noteq> uid)
       \<and> (GetReceiptPath repo os s tid uid role = Inl ErrForbidden)
           = (role \<noteq> RoleAdmin \<and> UserID t \<noteq> uid)
       \<and> (fst (UpdateTransaction repo s now tid uid req) = Inl ErrForbidden) = (UserID t \<noteq> uid)
       \<and> (fst (UploadReceipt repo os s fs tid uid fh base) = Inl ErrForbidden) = (UserID t \<noteq> uid)"
proof -
  have g1: "role = RoleAdmin \<or> UserID t = uid \<longrightarrow> GetTransactionByID repo s tid uid role = Inr t"
    and g2: "role \<noteq> RoleAdmin \<and> UserID t \<noteq> uid \<longrightarrow>
               GetTransactionByID repo s tid uid role = Inl ErrForbidden"
    and g3: "(GetTransactionByID repo s tid uid role = Inl ErrForbidden)
               = (role \<noteq> RoleAdmin \<and> UserID t \<noteq> uid)"
    using assms by (auto simp: GetTransactionByID_def)
  have d1: "role = RoleAdmin \<or> UserID t = uid \<longrightarrow>
            DeleteTransaction repo s tid uid role
              = (case repo_Delete repo s tid of
                   (Some err, s') \<Rightarrow> (Some (Wrapf ''failed to delete transaction in repo'' err), s')
                 | (None, s') \<Rightarrow> (None, s'))"
    and d2: "role \<noteq> RoleAdmin \<and> UserID t \<noteq> uid \<longrightarrow>
               DeleteTransaction repo s tid uid role = (Some ErrForbidden, s)"
    using assms by (auto simp: DeleteTransaction_def)
  have d3: "(fst (DeleteTransaction repo s tid uid role) = Some ErrForbidden)
              = (role \<noteq> RoleAdmin \<and> UserID t \<noteq> uid)"
    using assms by (auto simp: DeleteTransaction_def split: prod.splits option.splits)
  have r0: "role = RoleAdmin \<or> UserID t = uid \<longrightarrow>
            GetReceiptPath repo os s tid uid role
              = (case ReceiptPath t of
                   None \<Rightarrow> Inl (Errorf ''receipt not found for this transaction'')
                 | Some p \<Rightarrow>
                     if p = [] then Inl (Errorf ''receipt not found for this transaction'')
                     else Inr (filepath_FromSlash os p, filepath_Base os (filepath_FromSlash os p)))"
    using assms by (auto simp: GetReceiptPath_def Let_def split: option.splits)
  have r1: "role = RoleAdmin \<or> UserID t = uid \<longrightarrow>
            GetReceiptPath repo os s tid uid role = GetReceiptPath repo os s tid (UserID t) role'"
    using assms by (auto simp: GetReceiptPath_def Let_def)
  have r2: "role \<noteq> RoleAdmin \<and> UserID t \<noteq> uid \<longrightarrow>
              GetReceiptPath repo os s tid uid role = Inl ErrForbidden"
    using assms by (auto simp: GetReceiptPath_def)
  have r3: "(GetReceiptPath repo os s tid uid role = Inl ErrForbidden)
              = (role \<noteq> RoleAdmin \<and> UserID t \<noteq> uid)"
    using assms by (auto simp: GetReceiptPath_def Let_def split: option.splits)
  have u1: "UserID t = uid \<longrightarrow>
            UpdateTransaction repo s now tid uid req
              = (case repo_Update repo s (apply_updates req now t) of
                   (Inl err, s') \<Rightarrow> (Inl (Wrapf ''failed to update transaction in repo'' err), s')
                 | (Inr updatedAt, s') \<Rightarrow>
                     (Inr ((apply_updates req now t)\<lparr>UpdatedAt := updatedAt\<rparr>), s'))"
    and u2: "UserID t \<noteq> uid \<longrightarrow>
               UpdateTransaction repo s now tid uid req = (Inl ErrForbidden, s)"
    using assms by (auto simp: UpdateTransaction_def Let_def)
  have u3: "(fst (UpdateTransaction repo s now tid uid req) = Inl ErrForbidden) = (UserID t \<noteq> uid)"
    using assms by (auto simp: UpdateTransaction_def Let_def split: prod.splits sum.splits)
  have p1: "UserID t = uid \<and> Size fh \<le> MaxFileSize
            \<and> allowedExts (strings_ToLower (filepath_Ext os (Filename fh))) \<longrightarrow>
            UploadReceipt repo os s fs tid uid fh base = store_receipt repo os s fs tid t fh base"
    and p2: "UserID t \<noteq> uid \<longrightarrow>
               UploadReceipt repo os s fs tid uid fh base = (Inl ErrForbidden, s, fs)"
    using assms by (auto simp: UploadReceipt_def)
  have p3: "(fst (UploadReceipt repo os s fs tid uid fh base) = Inl ErrForbidden) = (UserID t \<noteq> uid)"
    using assms store_receipt_not_sentinel [of repo os s fs tid t fh base]
    by (auto simp: UploadReceipt_def)
  show ?thesis
    using g1 g2 g3 d1 d2 d3 r0 r1 r2 r3 u1 u2 u3 p1 p2 p3 by blast
qed

theorem access_policy_by_operation_witness:
  "GetTransactionByID example_repo example_db 1 2 RoleAdmin = Inr tx_food
   \<and> GetTransactionByID example_repo example_db 1 1 RoleUser = Inr tx_food
   \<and> GetTransactionByID example_repo example_db 1 2 RoleUser = Inl ErrForbidden
   \<and> DeleteTransaction example_repo example_db 1 2 RoleAdmin
       = (None, \<lparr>transactions = [tx_salary], users = [user_u1]\<rparr>)
   \<and> DeleteTransaction example_repo example_db 1 1 RoleUser
       = (None, \<lparr>transactions = [tx_salary], users = [user_u1]\<rparr>)
   \<and> DeleteTransaction example_repo example_db 1 2 RoleUser = (Some ErrForbidden, example_db)
   \<and> GetReceiptPath example_repo unix_os example_db_receipt 1 2 RoleAdmin
       = Inr (''uploads/transactions/1/receipt.JPG'', ''receipt.JPG'')
   \<and> GetReceiptPath example_repo unix_os example_db_receipt 1 1 RoleUser
       = Inr (''uploads/transactions/1/receipt.JPG'', ''receipt.JPG'')
   \<and> GetReceiptPath example_repo unix_os example_db_receipt 1 2 RoleUser = Inl ErrForbidden
   \<and> UpdateTransaction example_repo example_db jan10 1 1 no_changes
       = (Inr (tx_food\<lparr>UpdatedAt := jan10\<rparr>),
          \<lparr>transactions = [tx_food\<lparr>UpdatedAt := jan10\<rparr>, tx_salary], users = [user_u1]\<rparr>)
   \<and> UpdateTransaction example_repo example_db jan10 1 2 no_changes
       = (Inl ErrForbidden, example_db)
   \<and> UploadReceipt example_repo unix_os example_db Map.empty 1 1 receipt_jpg ''uploads''
       = (Inr (tx_food\<lparr>ReceiptPath := Some ''uploads/transactions/1/receipt.JPG''\<rparr>),
          example_db_receipt,
          [''uploads/transactions/1/receipt.JPG'' \<mapsto> ''bytes''])
   \<and> UploadReceipt example_repo unix_os example_db Map.empty 1 2 receipt_jpg ''uploads''
       = (Inl ErrForbidden, example_db, Map.empty)"
proof -
  note admin = access_policy_by_operation [OF example_find_1,
      where uid = 2 and role = RoleAdmin and os = unix_os and now = jan10 and req = no_changes
        and fs = Map.empty and fh = receipt_jpg and base = "''uploads''" and role' = RoleUser]
  note owner = access_policy_by_operation [OF example_find_1,
      where uid = 1 and role = RoleUser and os = unix_os and now = jan10 and req = no_changes
        and fs = Map.empty and fh = receipt_jpg and base = "''uploads''" and role' = RoleUser]
  note other = access_policy_by_operation [OF example_find_1,
      where uid = 2 and role = RoleUser and os = unix_os and now = jan10 and req = no_changes
        and fs = Map.empty and fh = receipt_jpg and base = "''uploads''" and role' = RoleUser]
  note admin_r = access_policy_by_operation [OF example_find_receipt,
      where uid = 2 and role = RoleAdmin and os = unix_os and role' = RoleUser]
  note owner_r = access_policy_by_operation [OF example_find_receipt,
      where uid = 1 and role = RoleUser and os = unix_os and role' = RoleUser]
  note other_r = access_policy_by_operation [OF example_find_receipt,
      where uid = 2 and role = RoleUser and os = unix_os and role' = RoleUser]
  have roles: "RoleUser \<noteq> RoleAdmin"
    by (simp add: RoleUser_def RoleAdmin_def)
  have upd: "apply_updates no_changes jan10 tx_food = tx_food\<lparr>UpdatedAt := jan10\<rparr>"
    by (simp add: apply_updates_def no_changes_def)
  have g: "GetTransactionByID example_repo example_db 1 2 RoleAdmin = Inr tx_food"
    "GetTransactionByID example_repo example_db 1 1 RoleUser = Inr tx_food"
    "GetTransactionByID example_repo example_db 1 2 RoleUser = Inl ErrForbidden"
    using admin owner other roles by (simp_all add: tx_food_owner)
  have d: "DeleteTransaction example_repo example_db 1 2 RoleAdmin
             = (None, \<lparr>transactions = [tx_salary], users = [user_u1]\<rparr>)"
    "DeleteTransaction example_repo example_db 1 1 RoleUser
             = (None, \<lparr>transactions = [tx_salary], users = [user_u1]\<rparr>)"
    "DeleteTransaction example_repo example_db 1 2 RoleUser = (Some ErrForbidden, example_db)"
    using admin owner other roles by (simp_all add: tx_food_owner example_delete)
  have r: "GetReceiptPath example_repo unix_os example_db_receipt 1 2 RoleAdmin
             = Inr (''uploads/transactions/1/receipt.JPG'', ''receipt.JPG'')"
    "GetReceiptPath example_repo unix_os example_db_receipt 1 1 RoleUser
             = Inr (''uploads/transactions/1/receipt.JPG'', ''receipt.JPG'')"
    "GetReceiptPath example_repo unix_os example_db_receipt 1 2 RoleUser = Inl ErrForbidden"
    using admin_r owner_r other_r roles example_receipt_names
    by (simp_all add: tx_food_receipt_owner tx_food_receipt_path)
  have u: "UpdateTransaction example_repo example_db jan10 1 1 no_changes
             = (Inr (tx_food\<lparr>UpdatedAt := jan10\<rparr>),
                \<lparr>transactions = [tx_food\<lparr>UpdatedAt := jan10\<rparr>, tx_salary], users = [user_u1]\<rparr>)"
    "UpdateTransaction example_repo example_db jan10 1 2 no_changes
             = (Inl ErrForbidden, example_db)"
    using owner admin example_update by (simp_all add: tx_food_owner upd)
  have p: "UploadReceipt example_repo unix_os example_db Map.empty 1 1 receipt_jpg ''uploads''
             = (Inr (tx_food\<lparr>ReceiptPath := Some ''uploads/transactions/1/receipt.JPG''\<rparr>),
                example_db_receipt,
                [''uploads/transactions/1/receipt.JPG'' \<mapsto> ''bytes''])"
    "UploadReceipt example_repo unix_os example_db Map.empty 1 2 receipt_jpg ''uploads''
             = (Inl ErrForbidden, example_db, Map.empty)"
    using owner admin receipt_jpg_passes example_store by (simp_all add: tx_food_owner)
  show ?thesis using g d r u p by simp
qed

text \<open>
  Claim C4 as stated fails: caller 2, who as an administrator is given the record of
  owner 1 by \<^verbatim>\<open>GetTransactionByID\<close>, is refused with the forbidden error by
  \<^verbatim>\<open>UpdateTransaction\<close> and by \<^verbatim>\<open>UploadReceipt\<close>.
\<close>

theorem admin_update_counterexample:
  "GetTransactionByID example_repo example_db 1 2 RoleAdmin = Inr tx_food
   \<and> UserID tx_food = 1
   \<and> fst (UpdateTransaction example_repo example_db jan10 1 2 no_changes) = Inl ErrForbidden
   \<and> fst (UploadReceipt example_repo unix_os example_db Map.empty 1 2 receipt_jpg ''uploads'')
       = Inl ErrForbidden"
  using example_find_1
  by (simp add: GetTransactionByID_def UpdateTransaction_def UploadReceipt_def tx_food_owner)

subsection \<open>The checks on an upload\<close>

text \<open>
  Claim C10, as amended. Once the record is found and the caller is its owner,
  \<^verbatim>\<open>UploadReceipt\<close> returns the file-size error for every file of more than
  \<^verbatim>\<open>5*1024*1024\<close> bytes, and the file-format error for every file within that size whose
  lowercased extension is not one of .jpg, .jpeg, .png and .pdf. In both cases the store
  and the file system are returned as they were given, whatever the repository and the
  operating system would do when called: no write of either is attempted.
\<close>

theorem upload_rejections:
  assumes "repo_FindByID repo s tid = Inr (Some t)" and "UserID t = uid"
  shows "(Size fh > MaxFileSize \<longrightarrow>
            UploadReceipt repo os s fs tid uid fh base = (Inl ErrFileSizeExceeded, s, fs))
       \<and> (Size fh \<le> MaxFileSize
            \<and> strings_ToLower (filepath_Ext os (Filename fh)) \<notin> set [''.jpg'', ''.jpeg'', ''.png'', ''.pdf'']
          \<longrightarrow> UploadReceipt repo os s fs tid uid fh base = (Inl ErrInvalidFileFormat, s, fs))
       \<and> ErrFileSizeExceeded \<noteq> ErrInvalidFileFormat
       \<and> MaxFileSize = 5242880"
  using assms by (simp add: UploadReceipt_def allowedExts_def MaxFileSize_def)

theorem upload_rejections_witness:
  "UploadReceipt example_repo unix_os example_db Map.empty 1 1 receipt_big_jpg ''uploads''
       = (Inl ErrFileSizeExceeded, example_db, Map.empty)
   \<and> UploadReceipt example_repo unix_os example_db Map.empty 1 1 receipt_exe ''uploads''
       = (Inl ErrInvalidFileFormat, example_db, Map.empty)
   \<and> fst (UploadReceipt example_repo unix_os example_db Map.empty 1 1 receipt_jpg ''uploads'')
       = Inr (tx_food\<lparr>ReceiptPath := Some ''uploads/transactions/1/receipt.JPG''\<rparr>)
   \<and> snd (snd (UploadReceipt example_repo unix_os example_db Map.empty 1 1 receipt_jpg ''uploads''))
       = [''uploads/transactions/1/receipt.JPG'' \<mapsto> ''bytes'']"
proof -
  have big: "Size receipt_big_jpg > MaxFileSize"
    by (simp add: receipt_big_jpg_def MaxFileSize_def)
  have small: "Size receipt_exe \<le> MaxFileSize"
    by (simp add: receipt_exe_def MaxFileSize_def)
  have ext: "strings_ToLower (filepath_Ext unix_os (Filename receipt_exe))
      \<notin> set [''.jpg'', ''.jpeg'', ''.png'', ''.pdf'']"
    by (simp add: receipt_exe_def unix_os_def lower_exe)
  have dir: "unix_Join [''uploads'', ''transactions'', Itoa 1] = ''uploads/transactions/1''"
    by (simp add: unix_Join_def unix_Clean_def Itoa_def digit_char_def)
  have path: "unix_Join [''uploads/transactions/1'', unix_Base ''receipt.JPG'']
      = ''uploads/transactions/1/receipt.JPG''"
    by (simp add: unix_Join_def unix_Clean_def unix_Base_def)
  have ok: "UploadReceipt example_repo unix_os example_db Map.empty 1 1 receipt_jpg ''uploads''
     = (Inr (tx_food\<lparr>ReceiptPath := Some ''uploads/transactions/1/receipt.JPG''\<rparr>),
        snd (UpdateReceiptPath jan10 example_db 1 ''uploads/transactions/1/receipt.JPG''),
        [''uploads/transactions/1/receipt.JPG'' \<mapsto> ''bytes''])"
    using example_find_1
    by (simp add: UploadReceipt_def store_receipt_def tx_food_owner receipt_jpg_def
        MaxFileSize_def unix_os_def lower_JPG allowedExts_def dir path Let_def
        example_repo_def transactionRepository_def UpdateReceiptPath_def example_db_def
        tx_food_def tx_salary_def)
  show ?thesis
    using upload_rejections [OF example_find_1 tx_food_owner, of receipt_big_jpg unix_os Map.empty "''uploads''"]
      upload_rejections [OF example_find_1 tx_food_owner, of receipt_exe unix_os Map.empty "''uploads''"]
      big small ext ok
    by simp
qed

text \<open>
  Claim C10 as stated fails for a file with both defects: an upload of 6 MiB named
  \<^verbatim>\<open>tool.exe\<close> has an extension that is not allowed, and is answered with the
  file-size error, not with the file-format error.
\<close>

theorem upload_both_defects_counterexample:
  "strings_ToLower (filepath_Ext unix_os (Filename receipt_big_exe))
     \<notin> set [''.jpg'', ''.jpeg'', ''.png'', ''.pdf'']
   \<and> UploadReceipt example_repo unix_os example_db Map.empty 1 1 receipt_big_exe ''uploads''
       = (Inl ErrFileSizeExceeded, example_db, Map.empty)
   \<and> ErrFileSizeExceeded \<noteq> ErrInvalidFileFormat"
  using example_find_1
  by (simp add: UploadReceipt_def tx_food_owner receipt_big_exe_def MaxFileSize_def
      unix_os_def lower_exe)

subsection \<open>Filtering by a single day\<close>

lemma adjust_dates_single_day:
  assumes "StartDate_u f = Some sd" "Hour sd = 0" "Minute sd = 0" "Second sd = 0"
    "EndDate_u f = None"
  shows "adjust_dates f = f\<lparr>StartDate_u := Some (start_of_day sd), EndDate_u := Some (end_of_day sd)\<rparr>"
  using assms
  by (simp add: adjust_dates_def Let_def start_of_day_def end_of_day_def time_Date_def)

lemma adjust_dates_explicit_range:
  assumes "Hour sd = 0" "Minute sd = 0" "Second sd = 0"
  shows "adjust_dates (f\<lparr>StartDate_u := Some (start_of_day sd), EndDate_u := Some (end_of_day sd)\<rparr>)
         = f\<lparr>StartDate_u := Some (start_of_day sd), EndDate_u := Some (end_of_day sd)\<rparr>"
  by (simp add: adjust_dates_def Let_def start_of_day_def end_of_day_def time_Date_def)

lemma adjust_dates_end:
  assumes "EndDate_u f = Some ed" "Hour ed = 0" "Minute ed = 0" "Second ed = 0"
  shows "EndDate_u (adjust_dates f) = Some (end_of_day ed)"
  using assms
  by (auto simp: adjust_dates_def Let_def end_of_day_def split: option.splits)

text \<open>
  Claim C3. A filter of a user with a start boundary at zero time of day and no end
  boundary gives the result of the filter with the explicit range from the first to the
  last instant (23:59:59.999999999) of that day: the adjustment sets the missing end
  boundary to that last instant; and an end boundary with zero time of day is moved to
  the last instant of its own day.
\<close>

theorem single_day_filter:
  "(StartDate_u f = Some sd \<and> Hour sd = 0 \<and> Minute sd = 0 \<and> Second sd = 0 \<and> EndDate_u f = None
      \<longrightarrow> GetUserTransactions repo s uid f
            = GetUserTransactions repo s uid
                (f\<lparr>StartDate_u := Some (start_of_day sd), EndDate_u := Some (end_of_day sd)\<rparr>)
          \<and> EndDate_u (adjust_dates f) = Some (end_of_day sd)
          \<and> StartDate_u (adjust_dates f) = Some (start_of_day sd))
   \<and> (EndDate_u f = Some ed \<and> Hour ed = 0 \<and> Minute ed = 0 \<and> Second ed = 0
      \<longrightarrow> EndDate_u (adjust_dates f) = Some (end_of_day ed))
   \<and> end_of_day sd = \<lparr>Year = Year sd, Month = Month sd, Day = Day sd, Hour = 23, Minute = 59,
                        Second = 59, Nanosecond = 999999999, Location = Location sd\<rparr>
   \<and> start_of_day sd = \<lparr>Year = Year sd, Month = Month sd, Day = Day sd, Hour = 0, Minute = 0,
                        Second = 0, Nanosecond = 0, Location = Location sd\<rparr>"
proof -
  have a: "GetUserTransactions repo s uid f
            = GetUserTransactions repo s uid
                (f\<lparr>StartDate_u := Some (start_of_day sd), EndDate_u := Some (end_of_day sd)\<rparr>)
          \<and> EndDate_u (adjust_dates f) = Some (end_of_day sd)
          \<and> StartDate_u (adjust_dates f) = Some (start_of_day sd)"
    if h: "StartDate_u f = Some sd" "Hour sd = 0" "Minute sd = 0" "Second sd = 0" "EndDate_u f = None"
    unfolding GetUserTransactions_def adjust_dates_explicit_range [OF h(2,3,4)]
      adjust_dates_single_day [OF h]
    by simp
  show ?thesis
    using a adjust_dates_end [of f ed]
    by (auto simp: end_of_day_def start_of_day_def time_Date_def)
qed

theorem single_day_filter_witness:
  "GetUserTransactions example_repo example_db 1 filter_jan5 = Inr [tx_food]
   \<and> GetUserTransactions example_repo example_db 1 filter_jan5_range = Inr [tx_food]
   \<and> EndDate_u (adjust_dates filter_jan5) = Some (time_Date 2024 1 5 23 59 59 999999999 0)"
  using single_day_filter [where f = filter_jan5 and sd = "time_Date 2024 1 5 0 0 0 0 0"
      and ed = "time_Date 2024 1 5 0 0 0 0 0" and repo = example_repo and s = example_db
      and uid = 1]
    example_jan5_range
  by (simp add: filter_jan5_def filter_jan5_range_def start_of_day_def end_of_day_def time_Date_def)

subsection \<open>The layout of the export\<close>

lemma write_rows_closed:
  "write_rows w ts = Inr (w @ concat (map (\<lambda>t. csv_line (csv_record t)) ts))"
  by (induction ts arbitrary: w) (simp_all add: csv_Write_def csv_line_def csv_record_def Let_def)

lemma csv_header_line:
  "csv_line csv_header
     = ''ID,UserID,Amount,Type,Category,Description,TransactionDate,CreatedAt,ReceiptPath\<newline>''"
  by (simp add: csv_line_def csv_header_def csv_field_def fieldNeedsQuotes_def
      first_rune_is_space_def byte_def)

text \<open>
  Claim C9. For the sequence of records the repository returns, the export is the header
  line ID, UserID, Amount, Type, Category, Description, TransactionDate, CreatedAt,
  ReceiptPath followed by one line per record in the order of the sequence; a record's
  fields are its id, owner id and amount in decimal, its type and category, its
  description or the empty string, its two timestamps in RFC 3339, and its receipt path
  or the empty string.
\<close>

theorem csv_export_layout:
  assumes "repo_FindAll repo s filters = Inr txs"
  shows "ExportTransactionsCSVAdmin repo s filters
           = Inr (csv_line csv_header @ concat (map (\<lambda>t. csv_line (csv_record t)) txs))
       \<and> csv_line csv_header
           = ''ID,UserID,Amount,Type,Category,Description,TransactionDate,CreatedAt,ReceiptPath\<newline>''
       \<and> (\<forall>t\<in>set txs. csv_record t =
             [Itoa (ID t), Itoa (UserID t), Itoa (sint (Amount t)), Type t, Category t,
              (case Description t of None \<Rightarrow> [] | Some d \<Rightarrow> d),
              Format_RFC3339 (TransactionDate t), Format_RFC3339 (CreatedAt t),
              (case ReceiptPath t of None \<Rightarrow> [] | Some p \<Rightarrow> p)])"
  using assms csv_header_line
  by (simp add: ExportTransactionsCSVAdmin_def csv_Write_def write_rows_closed csv_line_def
      csv_header_def csv_record_def FormatInt_def)

theorem csv_export_layout_witness:
  "ExportTransactionsCSVAdmin example_repo example_db example_filter
     = Inr ''ID,UserID,Amount,Type,Category,Description,TransactionDate,CreatedAt,ReceiptPath\<newline>2,1,5000,income,salary,,2024-01-10T12:00:00Z,2024-01-10T12:00:00Z,\<newline>1,1,1000,expense,food,,2024-01-05T12:00:00Z,2024-01-05T12:00:00Z,\<newline>''"
  using csv_export_layout [OF example_FindAll]
  by (simp add: example_record_salary example_record_food)

end
